theory Spec2Isabelle
  imports Complex_Main
begin

section \<open>The type registry (Registry class)\<close>

text \<open>
  A deserialization record is a \<open>Record<string, unknown>\<close>: a finite map from field
  names to arbitrary JavaScript values. The values matter only through their
  truthiness and through their use as a key of the registry's \<open>Map<string, _>\<close>.
\<close>

datatype jsval =
    JUndefined
  | JNull
  | JBool bool
  | JNum real
  | JNaN
  | JStr string
  | JArr "jsval list"
  | JObj "(string \<times> jsval) list"

type_synonym jsrecord = "string \<rightharpoonup> jsval"

text \<open>Reading a property: an absent field reads as \<open>undefined\<close>.\<close>

definition getProp :: "jsrecord \<Rightarrow> string \<Rightarrow> jsval" where
  "getProp data k = (case data k of None \<Rightarrow> JUndefined | Some v \<Rightarrow> v)"

text \<open>JavaScript's ToBoolean, as used by \<open>if (v)\<close> and \<open>!!v\<close>.\<close>

fun truthy :: "jsval \<Rightarrow> bool" where
  "truthy JUndefined = False"
| "truthy JNull = False"
| "truthy (JBool b) = b"
| "truthy (JNum x) = (x \<noteq> 0)"
| "truthy JNaN = False"
| "truthy (JStr s) = (s \<noteq> [])"
| "truthy (JArr _) = True"
| "truthy (JObj _) = True"

text \<open>A registry entry \<open>TRegistry\<close>: the mandatory \<open>json\<close> handler and the optional \<open>svg\<close> one.\<close>

record 'h TRegistry =
  json :: 'h
  svg :: "'h option"

type_synonym 'h registry = "string \<rightharpoonup> 'h TRegistry"

definition register :: "'h registry \<Rightarrow> string \<Rightarrow> 'h TRegistry \<Rightarrow> 'h registry" where
  "register reg type v = reg(type \<mapsto> v)"

text \<open>
  \<open>resolveJSONKey\<close>: the gradient shim tests the truthiness of \<open>data.colorStops\<close>;
  otherwise \<open>data.type\<close> is returned as it is (the cast does not change the value).
\<close>

definition resolveJSONKey :: "jsrecord \<Rightarrow> jsval" where
  "resolveJSONKey data =
     (if truthy (getProp data ''colorStops'') then JStr ''gradient''
      else getProp data ''type'')"

text \<open>\<open>Map.get\<close> on a map keyed by strings: a key that is not a string finds nothing.\<close>

definition registry_get :: "'h registry \<Rightarrow> jsval \<Rightarrow> 'h TRegistry option" where
  "registry_get reg key = (case key of JStr s \<Rightarrow> reg s | _ \<Rightarrow> None)"

text \<open>
  The value of \<open>!!key && this.registry.get(key)?.json\<close>: \<open>false\<close> when the key is
  falsy, \<open>undefined\<close> when the map has no entry, the handler otherwise.
\<close>

datatype 'h handler_value = HFalse | HUndefined | Handler 'h

datatype error = JSONHandlerError jsval

definition getJSONHandler :: "'h registry \<Rightarrow> jsrecord \<Rightarrow> bool \<Rightarrow> error + 'h handler_value" where
  "getJSONHandler reg data strict =
     (let key = resolveJSONKey data;
          handler = (if truthy key
                     then (case registry_get reg key of
                             None \<Rightarrow> HUndefined
                           | Some e \<Rightarrow> Handler (json e))
                     else HFalse)
      in if (case handler of Handler _ \<Rightarrow> False | _ \<Rightarrow> True) \<and> strict
         then Inl (JSONHandlerError key)
         else Inr handler)"

section \<open>Points and transform matrices\<close>

text \<open>
  Numbers are modelled as reals: the properties below are statements of exact
  arithmetic. A point is a pair, a transform the six entries \<open>[a, b, c, d, e, f]\<close>
  of a 2D affine matrix.
\<close>

type_synonym point = "real \<times> real"

type_synonym matrix = "real \<times> real \<times> real \<times> real \<times> real \<times> real"

definition p_add :: "point \<Rightarrow> point \<Rightarrow> point" where
  "p_add p q = (fst p + fst q, snd p + snd q)"

definition p_subtract :: "point \<Rightarrow> point \<Rightarrow> point" where
  "p_subtract p q = (fst p - fst q, snd p - snd q)"

definition scalarDivide :: "point \<Rightarrow> real \<Rightarrow> point" where
  "scalarDivide p k = (fst p / k, snd p / k)"

definition midPointFrom :: "point \<Rightarrow> point \<Rightarrow> point" where
  "midPointFrom p that = (fst p + (fst that - fst p) * (1/2), snd p + (snd that - snd p) * (1/2))"

text \<open>
  Modelled from the spec: the matrix utilities (\<open>transformPoint\<close>,
  \<open>multiplyTransformMatrices\<close>, \<open>invertTransform\<close>) are imported from a module that is
  not among the sources; they have the standard 2D affine semantics.
\<close>

definition transformPoint :: "point \<Rightarrow> matrix \<Rightarrow> bool \<Rightarrow> point" where
  "transformPoint p t ignoreOffset =
     (case t of (a, b, c, d, e, f) \<Rightarrow>
        if ignoreOffset then (a * fst p + c * snd p, b * fst p + d * snd p)
        else (a * fst p + c * snd p + e, b * fst p + d * snd p + f))"

definition multiplyTransformMatrices :: "matrix \<Rightarrow> matrix \<Rightarrow> matrix" where
  "multiplyTransformMatrices m n =
     (case m of (a0, a1, a2, a3, a4, a5) \<Rightarrow> case n of (b0, b1, b2, b3, b4, b5) \<Rightarrow>
        (a0 * b0 + a2 * b1, a1 * b0 + a3 * b1,
         a0 * b2 + a2 * b3, a1 * b2 + a3 * b3,
         a0 * b4 + a2 * b5 + a4, a1 * b4 + a3 * b5 + a5))"

definition determinant :: "matrix \<Rightarrow> real" where
  "determinant t = (case t of (a, b, c, d, e, f) \<Rightarrow> a * d - b * c)"

text \<open>
  \<open>invertTransform\<close> divides by the determinant. When the determinant is 0 the
  quotient is \<open>Infinity\<close> and every entry of the result is \<open>Infinity\<close> or \<open>NaN\<close>,
  and so is every point transformed by it: there is no such matrix of reals, and the
  result is \<open>None\<close>.
\<close>

definition invertTransform :: "matrix \<Rightarrow> matrix option" where
  "invertTransform t =
     (case t of (a, b, c, d, e, f) \<Rightarrow>
        if a * d - b * c = 0 then None
        else (let k = 1 / (a * d - b * c);
                  r = (k * d, - k * b, - k * c, k * a, 0, 0);
                  q = transformPoint (e, f) r True
              in Some (k * d, - k * b, - k * c, k * a, - fst q, - snd q)))"

definition iMatrix :: matrix where
  "iMatrix = (1, 0, 0, 1, 0, 0)"

definition degreesToRadians :: "real \<Rightarrow> real" where
  "degreesToRadians d = d * (pi / 180)"

section \<open>Children of a container\<close>

text \<open>
  A child is seen by the layout code through a handful of members. For a plain object:
  \<open>left\<close>, \<open>top\<close>, \<open>angle\<close>, whether its \<open>layout\<close> is \<open>'fill-parent'\<close>, whether its
  \<open>group\<close> is the container at hand (a member of a selection stays in its owner's
  \<open>_objects\<close> while its \<open>group\<close> points to the selection), and two methods inherited
  from the object class, which is not among the sources:
  \<^item> \<open>_getTransformedDimensions()\<close>, the size of the object in its parent's plane,
    kept as the field \<open>o_dims\<close>;
  \<^item> \<open>getRelativeCenterPoint()\<close>, the centre in the parent's plane. It is the
    position \<open>(left, top)\<close> plus a vector that depends on the origin, the size and the
    angle but not on the position; the vector is the field \<open>o_centerOffset\<close>.

  A \<open>fabric.Layer\<close> child has its own children, its own matrix, and its
  \<open>_getTransformedDimensions({width, height})\<close> is the function \<open>l_dims\<close>.
\<close>

datatype child =
    Child (o_left: real) (o_top: real) (o_centerOffset: point) (o_dims: point)
          (o_angle: real) (o_fillParent: bool) (o_inGroup: bool)
  | Layer (l_objects: "child list") (l_ownMatrix: matrix) (l_dims: "real \<Rightarrow> real \<Rightarrow> point")
          (l_angle: real) (l_inGroup: bool)

definition getRelativeCenterPoint :: "child \<Rightarrow> point" where
  "getRelativeCenterPoint c = (o_left c + fst (o_centerOffset c), o_top c + snd (o_centerOffset c))"

text \<open>The bounding box returned by \<open>getObjectsBoundingBox\<close>.\<close>

record bbox =
  bb_offsetX :: real
  bb_offsetY :: real
  bb_centerX :: real
  bb_centerY :: real
  bb_width :: real
  bb_height :: real

text \<open>The rotation of the half extents, done when \<open>object.angle\<close> is truthy.\<close>

definition rotateSizeVector :: "real \<Rightarrow> point \<Rightarrow> point" where
  "rotateSizeVector ang sv =
     (if ang \<noteq> 0
      then (let rad = degreesToRadians ang; s = \<bar>sin rad\<bar>; c = \<bar>cos rad\<bar>
            in (fst sv * c + snd sv * s, fst sv * s + snd sv * c))
      else sv)"

text \<open>
  The loop state of \<open>getObjectsBoundingBox\<close> is \<open>(first, min, max)\<close>. \<open>accumulate\<close>
  is the tail of the loop body, from \<open>a = objCenter.subtract(sizeVector)\<close> on.
\<close>

type_synonym boxState = "bool \<times> point \<times> point"

definition accumulate :: "boxState \<Rightarrow> point \<Rightarrow> point \<Rightarrow> boxState" where
  "accumulate st objCenter sizeVector =
     (case st of (first, mn, mx) \<Rightarrow>
        let a = p_subtract objCenter sizeVector;
            b = p_add objCenter sizeVector
        in if first
           then (False, (min (fst a) (fst b), min (snd a) (snd b)),
                        (max (fst a) (fst b), max (snd a) (snd b)))
           else (False, (min (min (fst mn) (fst a)) (fst b), min (min (snd mn) (snd a)) (snd b)),
                        (max (max (fst mx) (fst a)) (fst b), max (max (snd mx) (snd a)) (snd b))))"

definition makeBBox :: "matrix \<Rightarrow> bool \<Rightarrow> boxState \<Rightarrow> bbox" where
  "makeBBox own ignoreOffset st =
     (case st of (first, mn, mx) \<Rightarrow>
        let size = p_subtract mx mn;
            relativeCenter = (if ignoreOffset then scalarDivide size 2 else midPointFrom mn mx);
            offset = transformPoint mn own False;
            center = transformPoint relativeCenter own False
        in \<lparr>bb_offsetX = fst offset, bb_offsetY = snd offset,
            bb_centerX = fst center, bb_centerY = snd center,
            bb_width = fst size, bb_height = snd size\<rparr>)"

text \<open>
  \<open>getObjectsBoundingBox own objects ignoreOffset\<close>, where \<open>own\<close> is
  \<open>this.calcOwnMatrix()\<close>; \<open>None\<close> is \<open>null\<close>. \<open>boxStep\<close> is one round of the
  \<open>forEach\<close>; a layer calls its own \<open>getObjectsBoundingBox\<close> on its children.
\<close>

fun getObjectsBoundingBox :: "matrix \<Rightarrow> child list \<Rightarrow> bool \<Rightarrow> bbox option"
  and boxLoop :: "boxState \<Rightarrow> child list \<Rightarrow> boxState"
  and boxStep :: "boxState \<Rightarrow> child \<Rightarrow> boxState"
where
  "getObjectsBoundingBox own objects ignoreOffset =
     (if objects = [] then None
      else Some (makeBBox own ignoreOffset (boxLoop (True, (0, 0), (0, 0)) objects)))"
| "boxLoop st [] = st"
| "boxLoop st (x # xs) = boxLoop (boxStep st x) xs"
| "boxStep st (Layer objs lown ldims ang ing) =
     (case getObjectsBoundingBox lown objs False of
        None \<Rightarrow> st
      | Some bb \<Rightarrow>
          accumulate st (bb_centerX bb, bb_centerY bb)
            (rotateSizeVector ang (scalarDivide (ldims (bb_width bb) (bb_height bb)) 2)))"
| "boxStep st (Child l t coff d ang fp ing) =
     (if fp then st
      else accumulate st (getRelativeCenterPoint (Child l t coff d ang fp ing))
             (rotateSizeVector ang (scalarDivide d 2)))"

section \<open>The container (fabric.Group)\<close>

text \<open>
  The owning container chain above a group, as far as the group's own code reads it:
  \<open>isOnACache\<close> reads \<open>ownCaching\<close> and \<open>group\<close> of each ancestor, the clip-path
  layout reads \<open>this.group.calcTransformMatrix()\<close>.

  Modelled from the spec: \<open>calcTransformMatrix()\<close> belongs to the object class, which
  is not among the sources; it is the own matrix composed with the matrices of all
  owning groups.
\<close>

datatype ancestor =
  Ancestor (a_ownCaching: bool) (a_ownMatrix: matrix) (a_group: "ancestor option")

fun a_calcTransformMatrix :: "ancestor \<Rightarrow> matrix" where
  "a_calcTransformMatrix (Ancestor oc m None) = m"
| "a_calcTransformMatrix (Ancestor oc m (Some p)) =
     multiplyTransformMatrices (a_calcTransformMatrix p) m"

fun a_isOnACache :: "ancestor \<Rightarrow> bool" where
  "a_isOnACache (Ancestor oc m None) = oc"
| "a_isOnACache (Ancestor oc m (Some p)) = (oc \<or> a_isOnACache p)"

record canvas =
  preserveObjectStacking :: bool

text \<open>
  A clip path is an object; the layout code reads \<open>absolutePositioned\<close>, \<open>width\<close>,
  \<open>height\<close>, \<open>_getTransformedDimensions()\<close> (\<open>cp_dims\<close>), \<open>getCenterPoint()\<close>
  (\<open>cp_centerPoint\<close>), \<open>getRelativeCenterPoint()\<close> (position plus \<open>cp_centerOffset\<close>),
  and moves it through \<open>_adjustObjectPosition\<close>, which descends into the children
  of a layer (\<open>cp_layerObjects\<close> is \<open>Some\<close> for a clip path that is a layer).
\<close>

record clipPath =
  cp_absolutePositioned :: bool
  cp_left :: real
  cp_top :: real
  cp_centerOffset :: point
  cp_centerPoint :: point
  cp_dims :: point
  cp_width :: real
  cp_height :: real
  cp_layerObjects :: "child list option"

text \<open>
  The fields of a group that the layout and invalidation code reads or writes.
  \<open>originX\<close> and \<open>originY\<close> hold \<open>resolveOriginX(this.originX)\<close> and
  \<open>resolveOriginY(this.originY)\<close> (\<open>-0.5\<close>, \<open>0\<close> or \<open>0.5\<close>). The names \<open>top\<close> and
  \<open>group\<close> are taken in HOL, hence the primes.
\<close>

record fgroup =
  layout :: string
  left :: real
  top' :: real
  width :: real
  height :: real
  angle :: real
  skewX :: real
  skewY :: real
  originX :: real
  originY :: real
  subTargetCheck :: bool
  objects :: "child list"
  clipPath :: "clipPath option"
  group' :: "ancestor option"
  canvas :: "canvas option"
  ownCaching :: bool
  dirty :: bool
  firstLayoutDone :: bool
  layoutInProgress :: bool

text \<open>
  The methods a group inherits from the object class, whose code is not among the
  sources, are parameters of the model: \<open>getRelativeCenterPoint()\<close>,
  \<open>calcOwnMatrix()\<close>, \<open>_getTransformedDimensions(options)\<close> and
  \<open>setPositionByOrigin(point, 'center', 'center')\<close>.
\<close>

record dimsOptions =
  d_width :: "real option"
  d_height :: "real option"
  d_strokeWidth :: "real option"

record objectMethods =
  m_getRelativeCenterPoint :: "fgroup \<Rightarrow> point"
  m_calcOwnMatrix :: "fgroup \<Rightarrow> matrix"
  m_getTransformedDimensions :: "fgroup \<Rightarrow> dimsOptions \<Rightarrow> point"
  m_setPositionByOrigin :: "fgroup \<Rightarrow> point \<Rightarrow> fgroup"

text \<open>
  One implementation of these methods, used to run the model on concrete groups: a
  group whose origin is its centre (so \<open>left\<close>, \<open>top\<close> are the centre), with scale 1,
  no rotation, no skew and no stroke.
\<close>

definition centeredMethods :: objectMethods where
  "centeredMethods =
     \<lparr>m_getRelativeCenterPoint = (\<lambda>g. (left g, top' g)),
      m_calcOwnMatrix = (\<lambda>g. (1, 0, 0, 1, left g, top' g)),
      m_getTransformedDimensions = (\<lambda>g opts.
         (let sw = (case d_strokeWidth opts of None \<Rightarrow> 0 | Some w \<Rightarrow> w)
          in ((case d_width opts of None \<Rightarrow> width g | Some w \<Rightarrow> w) + sw,
              (case d_height opts of None \<Rightarrow> height g | Some h \<Rightarrow> h) + sw))),
      m_setPositionByOrigin = (\<lambda>g c. g\<lparr>left := fst c, top' := snd c\<rparr>)\<rparr>"

subsection \<open>Layout contexts and results\<close>

datatype contextType =
  Initialization | ObjectModified | Added | Removed | LayoutChange | Imperative | Progress

text \<open>
  The constructor options read by the layout: a field is \<open>Some\<close> when
  \<open>typeof options.field === 'number'\<close>.
\<close>

record options =
  opt_left :: "real option"
  opt_top :: "real option"
  opt_width :: "real option"
  opt_height :: "real option"
  opt_angle :: "real option"
  opt_skewX :: "real option"
  opt_skewY :: "real option"

text \<open>
  A layout result is a JavaScript object: each property may be missing (\<open>None\<close>).
  The same shape serves for the values a caller passes to \<open>triggerLayout\<close>.
\<close>

record layoutResult =
  r_centerX :: "real option"
  r_centerY :: "real option"
  r_correctionX :: "real option"
  r_correctionY :: "real option"
  r_width :: "real option"
  r_height :: "real option"
  r_offsetX :: "real option"
  r_offsetY :: "real option"

text \<open>
  A layout context. \<open>c_targets\<close> is \<open>context.targets\<close> (set for \<open>added\<close> and
  \<open>removed\<close>), \<open>c_context\<close> the values passed to \<open>triggerLayout\<close>, \<open>c_path\<close> the
  groups the request has bubbled through.
\<close>

record layoutContext =
  c_type :: contextType
  c_options :: "options option"
  c_objectsRelativeToGroup :: bool
  c_targets :: "child list"
  c_context :: "layoutResult option"
  c_path :: "fgroup list option"

text \<open>\<open>x || 0\<close> on a number that may be missing.\<close>

definition orZero :: "real option \<Rightarrow> real" where
  "orZero x = (case x of None \<Rightarrow> 0 | Some v \<Rightarrow> v)"

definition emptyResult :: layoutResult where
  "emptyResult = \<lparr>r_centerX = None, r_centerY = None, r_correctionX = None,
     r_correctionY = None, r_width = None, r_height = None, r_offsetX = None, r_offsetY = None\<rparr>"

definition bboxResult :: "bbox \<Rightarrow> layoutResult" where
  "bboxResult bb = \<lparr>r_centerX = Some (bb_centerX bb), r_centerY = Some (bb_centerY bb),
     r_correctionX = None, r_correctionY = None,
     r_width = Some (bb_width bb), r_height = Some (bb_height bb),
     r_offsetX = Some (bb_offsetX bb), r_offsetY = Some (bb_offsetY bb)\<rparr>"

text \<open>\<open>bbox || {}\<close>\<close>

definition orEmpty :: "bbox option \<Rightarrow> layoutResult" where
  "orEmpty b = (case b of None \<Rightarrow> emptyResult | Some bb \<Rightarrow> bboxResult bb)"

text \<open>\<open>Object.assign(target, source)\<close>: the properties of the source win.\<close>

definition orElse :: "'a option \<Rightarrow> 'a option \<Rightarrow> 'a option" where
  "orElse x y = (case x of None \<Rightarrow> y | Some v \<Rightarrow> Some v)"

definition assign :: "layoutResult \<Rightarrow> layoutResult \<Rightarrow> layoutResult" where
  "assign target source =
     \<lparr>r_centerX = orElse (r_centerX source) (r_centerX target),
      r_centerY = orElse (r_centerY source) (r_centerY target),
      r_correctionX = orElse (r_correctionX source) (r_correctionX target),
      r_correctionY = orElse (r_correctionY source) (r_correctionY target),
      r_width = orElse (r_width source) (r_width target),
      r_height = orElse (r_height source) (r_height target),
      r_offsetX = orElse (r_offsetX source) (r_offsetX target),
      r_offsetY = orElse (r_offsetY source) (r_offsetY target)\<rparr>"

subsection \<open>The layout strategies\<close>

text \<open>
  \<open>prepareInitialBoundingBox\<close>. After the early return \<open>objects\<close> is not empty, so
  \<open>getObjectsBoundingBox\<close> does not return \<open>null\<close> and the \<open>|| {}\<close> and \<open>|| 0\<close>
  fallbacks on the box are not taken; the \<open>None\<close> case below is unreachable.
\<close>

definition prepareInitialBoundingBox ::
  "objectMethods \<Rightarrow> fgroup \<Rightarrow> string \<Rightarrow> child list \<Rightarrow> layoutContext \<Rightarrow> layoutResult option" where
  "prepareInitialBoundingBox om this layoutDirective objs ctx =
     (let hasX = (case c_options ctx of None \<Rightarrow> False | Some opts \<Rightarrow> opt_left opts \<noteq> None);
          hasY = (case c_options ctx of None \<Rightarrow> False | Some opts \<Rightarrow> opt_top opts \<noteq> None);
          hasWidth = (case c_options ctx of None \<Rightarrow> False | Some opts \<Rightarrow> opt_width opts \<noteq> None);
          hasHeight = (case c_options ctx of None \<Rightarrow> False | Some opts \<Rightarrow> opt_height opts \<noteq> None)
      in if (hasX \<and> hasY \<and> hasWidth \<and> hasHeight \<and> c_objectsRelativeToGroup ctx) \<or> objs = []
         then None
         else (case getObjectsBoundingBox (m_calcOwnMatrix om this) objs False of
                 None \<Rightarrow> None
               | Some bb \<Rightarrow>
           let w = (if hasWidth then width this else bb_width bb);
               h = (if hasHeight then height this else bb_height bb);
               calculatedCenter = (bb_centerX bb, bb_centerY bb);
               origin = (originX this, originY this);
               size = (w, h);
               strokeWidthVector = m_getTransformedDimensions om this
                  \<lparr>d_width = Some 0, d_height = Some 0, d_strokeWidth = None\<rparr>;
               sizeAfter = m_getTransformedDimensions om this
                  \<lparr>d_width = Some w, d_height = Some h, d_strokeWidth = Some 0\<rparr>;
               bboxSizeAfter = m_getTransformedDimensions om this
                  \<lparr>d_width = Some (bb_width bb), d_height = Some (bb_height bb), d_strokeWidth = Some 0\<rparr>;
               rotationCorrection = (0, 0);
               originT = (fst origin + 1/2, snd origin + 1/2);
               originCorrection = (fst sizeAfter * fst originT, snd sizeAfter * snd originT);
               centerCorrection =
                 (if hasWidth then fst bboxSizeAfter / 2 else fst originCorrection,
                  if hasHeight then snd bboxSizeAfter / 2 else snd originCorrection);
               center =
                 (if hasX then left this - (fst sizeAfter + fst strokeWidthVector) * fst origin
                  else fst calculatedCenter - fst centerCorrection,
                  if hasY then top' this - (snd sizeAfter + snd strokeWidthVector) * snd origin
                  else snd calculatedCenter - snd centerCorrection);
               offsetCorrection = p_add
                 (if hasX
                  then fst center - fst calculatedCenter + fst bboxSizeAfter * (if hasWidth then 1/2 else 0)
                  else - (if hasWidth then (fst sizeAfter - fst strokeWidthVector) * (1/2)
                          else fst sizeAfter * fst originT),
                  if hasY
                  then snd center - snd calculatedCenter + snd bboxSizeAfter * (if hasHeight then 1/2 else 0)
                  else - (if hasHeight then (snd sizeAfter - snd strokeWidthVector) * (1/2)
                          else snd sizeAfter * snd originT))
                 rotationCorrection;
               correction = p_add
                 (if hasWidth then - fst sizeAfter / 2 else 0,
                  if hasHeight then - snd sizeAfter / 2 else 0)
                 offsetCorrection
           in Some \<lparr>r_centerX = Some (fst center), r_centerY = Some (snd center),
                    r_correctionX = Some (fst correction), r_correctionY = Some (snd correction),
                    r_width = Some (fst size), r_height = Some (snd size),
                    r_offsetX = None, r_offsetY = None\<rparr>))"

definition prepareBoundingBox ::
  "objectMethods \<Rightarrow> fgroup \<Rightarrow> string \<Rightarrow> child list \<Rightarrow> layoutContext \<Rightarrow> layoutResult option" where
  "prepareBoundingBox om this layoutDirective objs ctx =
     (if c_type ctx = Initialization
      then prepareInitialBoundingBox om this layoutDirective objs ctx
      else if c_type ctx = Imperative \<and> c_context ctx \<noteq> None
      then (case c_context ctx of
              None \<Rightarrow> None
            | Some values \<Rightarrow>
                Some (assign (orEmpty (getObjectsBoundingBox (m_calcOwnMatrix om this) objs False)) values))
      else map_option bboxResult (getObjectsBoundingBox (m_calcOwnMatrix om this) objs False))"

text \<open>
  The container itself as an element of the \<open>objects\<close> array handed to
  \<open>getObjectsBoundingBox\<close> (the lazy strategy does \<open>context.targets.concat(this)\<close>):
  the loop reads its \<open>layout\<close>, \<open>_getTransformedDimensions()\<close>,
  \<open>getRelativeCenterPoint()\<close> and \<open>angle\<close>. (The container is a group, not an
  instance of the layer subclass.)
\<close>

definition asObject :: "objectMethods \<Rightarrow> fgroup \<Rightarrow> child" where
  "asObject om this =
     Child (left this) (top' this)
       (p_subtract (m_getRelativeCenterPoint om this) (left this, top' this))
       (m_getTransformedDimensions om this \<lparr>d_width = None, d_height = None, d_strokeWidth = None\<rparr>)
       (angle this) (layout this = ''fill-parent'') False"

text \<open>The \<open>clip-path\<close> branch of \<open>getLayoutStrategyResult\<close>, for a clip path \<open>cp\<close>.\<close>

definition clipPathLayout ::
  "objectMethods \<Rightarrow> fgroup \<Rightarrow> clipPath \<Rightarrow> string \<Rightarrow> child list \<Rightarrow> layoutContext \<Rightarrow> layoutResult option" where
  "clipPathLayout om this cp layoutDirective objs ctx =
     (let clipPathSizeAfter = cp_dims cp
      in if cp_absolutePositioned cp \<and> (c_type ctx = Initialization \<or> c_type ctx = LayoutChange)
         then (let clipPathCenter =
                     (case group' this of
                        None \<Rightarrow> Some (cp_centerPoint cp)
                      | Some p \<Rightarrow>
                          map_option (\<lambda>inv. transformPoint (cp_centerPoint cp) inv False)
                            (invertTransform (a_calcTransformMatrix p)))
               in Some (emptyResult\<lparr>r_centerX := map_option fst clipPathCenter,
                                      r_centerY := map_option snd clipPathCenter,
                                      r_width := Some (fst clipPathSizeAfter),
                                      r_height := Some (snd clipPathSizeAfter)\<rparr>))
         else if \<not> cp_absolutePositioned cp
         then (let clipPathRelativeCenter =
                     (cp_left cp + fst (cp_centerOffset cp), cp_top cp + snd (cp_centerOffset cp));
                   clipPathCenter = transformPoint clipPathRelativeCenter (m_calcOwnMatrix om this) True
               in if c_type ctx = Initialization \<or> c_type ctx = LayoutChange
                  then (let bb = (case prepareBoundingBox om this layoutDirective objs ctx of
                                    None \<Rightarrow> emptyResult | Some r \<Rightarrow> r);
                            center = (orZero (r_centerX bb), orZero (r_centerY bb))
                        in Some (emptyResult\<lparr>
                             r_centerX := Some (fst center + fst clipPathCenter),
                             r_centerY := Some (snd center + snd clipPathCenter),
                             r_correctionX := map_option (\<lambda>c. c - fst clipPathCenter) (r_correctionX bb),
                             r_correctionY := map_option (\<lambda>c. c - snd clipPathCenter) (r_correctionY bb),
                             r_width := Some (cp_width cp),
                             r_height := Some (cp_height cp)\<rparr>))
                  else (let center = m_getRelativeCenterPoint om this
                        in Some (emptyResult\<lparr>
                             r_centerX := Some (fst center + fst clipPathCenter),
                             r_centerY := Some (snd center + snd clipPathCenter),
                             r_width := Some (fst clipPathSizeAfter),
                             r_height := Some (snd clipPathSizeAfter)\<rparr>)))
         else None)"

text \<open>
  \<open>getLayoutStrategyResult\<close>; \<open>None\<close> is \<open>undefined\<close> (or the \<open>null\<close> of an empty
  bounding box). In a result, a property that is missing or not a finite number is
  \<open>None\<close>; for a correction the only reader takes \<open>result.correctionX || 0\<close>, which
  is 0 for a missing value and for \<open>NaN\<close>.
\<close>

definition getLayoutStrategyResult ::
  "objectMethods \<Rightarrow> fgroup \<Rightarrow> string \<Rightarrow> child list \<Rightarrow> layoutContext \<Rightarrow> layoutResult option" where
  "getLayoutStrategyResult om this layoutDirective objs ctx =
     (if c_type ctx = Progress then None
      else if layoutDirective = ''fit-content-lazy'' \<and> c_type ctx = Added
              \<and> length objs > length (c_targets ctx)
      then (let addedObjects = c_targets ctx @ [asObject om this]
            in prepareBoundingBox om this layoutDirective addedObjects ctx)
      else if layoutDirective = ''fit-content'' \<or> layoutDirective = ''fit-content-lazy''
              \<or> (layoutDirective = ''fixed''
                   \<and> (c_type ctx = Initialization \<or> c_type ctx = Imperative))
      then prepareBoundingBox om this layoutDirective objs ctx
      else if layoutDirective = ''clip-path'' \<and> clipPath this \<noteq> None
      then (case clipPath this of
              None \<Rightarrow> None
            | Some cp \<Rightarrow> clipPathLayout om this cp layoutDirective objs ctx)
      else if layoutDirective = ''svg'' \<and> c_type ctx = Initialization
      then (let bb = orEmpty (getObjectsBoundingBox (m_calcOwnMatrix om this) objs True)
            in Some (bb\<lparr>r_correctionX := Some (- orZero (r_offsetX bb)),
                        r_correctionY := Some (- orZero (r_offsetY bb))\<rparr>))
      else None)"

subsection \<open>Applying a layout\<close>

text \<open>
  \<open>_adjustObjectPosition\<close>: a layer is not moved, its children are; any other object
  is moved by \<open>diff\<close>. (\<open>setCoords\<close> refreshes cached corner coordinates, which
  the model does not hold.) The displacement is \<open>None\<close> when it is not a pair of
  finite numbers (the own matrix could not be inverted); an object moved by it has no
  position in the reals, and the result is \<open>None\<close>. \<open>those\<close> collects the moved
  objects, and is \<open>None\<close> if one of them is.
\<close>

fun adjustObjectPosition :: "child \<Rightarrow> point option \<Rightarrow> child option" where
  "adjustObjectPosition (Layer objs lown ldims ang ing) diff =
     map_option (\<lambda>moved. Layer moved lown ldims ang ing)
       (those (map (\<lambda>obj. adjustObjectPosition obj diff) objs))"
| "adjustObjectPosition (Child l t coff d ang fp ing) diff =
     map_option (\<lambda>v. Child (l + fst v) (t + snd v) coff d ang fp ing) diff"

definition adjustClipPath :: "clipPath \<Rightarrow> point option \<Rightarrow> clipPath option" where
  "adjustClipPath cp diff =
     (case cp_layerObjects cp of
        Some objs \<Rightarrow>
          map_option (\<lambda>moved. cp\<lparr>cp_layerObjects := Some moved\<rparr>)
            (those (map (\<lambda>obj. adjustObjectPosition obj diff) objs))
      | None \<Rightarrow>
          map_option (\<lambda>v. cp\<lparr>cp_left := cp_left cp + fst v, cp_top := cp_top cp + snd v\<rparr>) diff)"

text \<open>\<open>object.group === this\<close>\<close>

fun groupIsThis :: "child \<Rightarrow> bool" where
  "groupIsThis (Layer objs lown ldims ang ing) = ing"
| "groupIsThis (Child l t coff d ang fp ing) = ing"

text \<open>
  What a call of \<open>_applyLayoutStrategy\<close> leaves behind: the group as mutated, and
  the context forwarded to \<open>this.group._applyLayoutStrategy\<close> by \<open>_bubbleLayout\<close>
  when the group has an owner (\<open>None\<close> when nothing is forwarded). A result object
  whose \<open>centerX\<close>, \<open>centerY\<close>, \<open>width\<close> or \<open>height\<close> is missing or not finite,
  or a displacement that is not finite and is applied to an object, makes the
  geometry \<open>NaN\<close>, \<open>Infinity\<close> or \<open>undefined\<close>; the model has no such numbers and
  reports \<open>NonNumeric\<close>.
\<close>

datatype layoutOutcome = Returned fgroup "layoutContext option" | NonNumeric

definition bubbleLayout :: "fgroup \<Rightarrow> layoutContext \<Rightarrow> layoutContext option" where
  "bubbleLayout this ctx =
     (if group' this \<noteq> None
      then Some (ctx\<lparr>c_path := Some ((case c_path ctx of None \<Rightarrow> [] | Some ps \<Rightarrow> ps) @ [this])\<rparr>)
      else None)"

definition setInitialTransform :: "(real \<times> real \<times> real) option \<Rightarrow> fgroup \<Rightarrow> fgroup" where
  "setInitialTransform initialTransform this =
     (case initialTransform of
        None \<Rightarrow> this
      | Some (a, sx, sy) \<Rightarrow> this\<lparr>angle := a, skewX := sx, skewY := sy\<rparr>)"

text \<open>
  The body of \<open>if (result)\<close> once the four numbers of the result are known.
  \<open>this.set\<close> assigns the properties.
\<close>

definition applyResult ::
  "objectMethods \<Rightarrow> fgroup \<Rightarrow> layoutContext \<Rightarrow> (real \<times> real \<times> real) option \<Rightarrow> point
     \<Rightarrow> layoutResult \<Rightarrow> real \<Rightarrow> real \<Rightarrow> real \<Rightarrow> real \<Rightarrow> fgroup option" where
  "applyResult om this ctx initialTransform center result cx cy w h =
     (let isFirstLayout = (c_type ctx = Initialization);
          g1 = this\<lparr>layoutInProgress := True\<rparr>;
          newCenter = (cx, cy);
          vector = p_add (p_subtract center newCenter)
                     (orZero (r_correctionX result), orZero (r_correctionY result));
          diff = map_option (\<lambda>inv. transformPoint vector inv True)
                   (invertTransform (m_calcOwnMatrix om g1));
          g2 = g1\<lparr>width := w, height := h\<rparr>;
          g3 = (if newCenter \<noteq> center \<or> initialTransform \<noteq> None
                then setInitialTransform initialTransform (m_setPositionByOrigin om g2 newCenter)
                else g2);
          g4 = (if \<not> c_objectsRelativeToGroup ctx
                then map_option (\<lambda>moved. g3\<lparr>objects := moved\<rparr>)
                       (those (map (\<lambda>obj. if groupIsThis obj
                                           then adjustObjectPosition obj diff else Some obj)
                                 (objects g3)))
                else Some g3);
          g5 = Option.bind g4 (\<lambda>g4.
                 case clipPath g4 of
                   None \<Rightarrow> Some g4
                 | Some cp \<Rightarrow>
                     if \<not> isFirstLayout \<and> layout g4 \<noteq> ''clip-path'' \<and> \<not> cp_absolutePositioned cp
                     then map_option (\<lambda>moved. g4\<lparr>clipPath := Some moved\<rparr>) (adjustClipPath cp diff)
                     else Some g4)
      in map_option (\<lambda>g5. g5\<lparr>layoutInProgress := False\<rparr>) g5)"

text \<open>
  \<open>_applyLayoutStrategy\<close>. \<open>onLayout\<close> is the empty hook, and listeners of the
  \<open>layout\<close> event are outside the model.
\<close>

definition applyLayoutStrategy :: "objectMethods \<Rightarrow> fgroup \<Rightarrow> layoutContext \<Rightarrow> layoutOutcome" where
  "applyLayoutStrategy om this ctx =
     (let isFirstLayout = (c_type ctx = Initialization)
      in if \<not> isFirstLayout \<and> \<not> firstLayoutDone this then Returned this None
         else if c_type ctx = Progress \<and> layoutInProgress this then Returned this None
         else
           (let opts = (if isFirstLayout then c_options ctx else None);
                initialTransform =
                  map_option (\<lambda>opts. (orZero (opt_angle opts), orZero (opt_skewX opts),
                                        orZero (opt_skewY opts))) opts;
                center = m_getRelativeCenterPoint om this
            in case getLayoutStrategyResult om this (layout this) (objects this) ctx of
                 Some result \<Rightarrow>
                   (case (r_centerX result, r_centerY result, r_width result, r_height result) of
                      (Some cx, Some cy, Some w, Some h) \<Rightarrow>
                        (case applyResult om this ctx initialTransform center result cx cy w h of
                           Some applied \<Rightarrow>
                             (let g = applied\<lparr>firstLayoutDone := True\<rparr>
                              in Returned g (bubbleLayout g ctx))
                         | None \<Rightarrow> NonNumeric)
                    | _ \<Rightarrow> NonNumeric)
               | None \<Rightarrow>
                   if isFirstLayout
                   then (let g = (setInitialTransform initialTransform this)\<lparr>firstLayoutDone := True\<rparr>
                         in Returned g (bubbleLayout g ctx))
                   else Returned this None))"

subsection \<open>Invalidation\<close>

definition isOnACache :: "fgroup \<Rightarrow> bool" where
  "isOnACache this =
     (ownCaching this \<or> (case group' this of None \<Rightarrow> False | Some p \<Rightarrow> a_isOnACache p))"

text \<open>
  \<open>invalidate\<close>: \<open>_set('dirty', true)\<close> assigns the flag; the context handed on is the
  invalidation context with its \<open>type\<close> set to \<open>'progress'\<close>.
\<close>

definition invalidate :: "objectMethods \<Rightarrow> fgroup \<Rightarrow> layoutContext \<Rightarrow> layoutOutcome" where
  "invalidate om this ctx =
     (let g = (if isOnACache this
                  \<and> (case canvas this of None \<Rightarrow> True | Some cv \<Rightarrow> preserveObjectStacking cv)
               then this\<lparr>dirty := True\<rparr> else this)
      in applyLayoutStrategy om g (ctx\<lparr>c_type := Progress\<rparr>))"

text \<open>
  Modelled from the spec: a member under selection. The selection container class
  and \<open>set\<close> of the object class are not among the sources (of the former, only the
  tests are). A member of a selection tracks two containers: its \<open>group\<close> is the
  selection container, and a separate, persistent reference is its owning container,
  if it has one. A geometric change on the member invalidates the owning container,
  by the \<open>invalidate\<close> above (whose context names as its target "either a child
  object or" the selection), and does not reach the cache of the selection
  container. \<open>None\<close> stands for an owning container left without finite geometry.
\<close>

record underSelection =
  u_owningGroup :: "fgroup option"
  u_selection :: fgroup

definition memberChanged :: "objectMethods \<Rightarrow> underSelection \<Rightarrow> layoutContext \<Rightarrow> underSelection option" where
  "memberChanged om st ctx =
     (case u_owningGroup st of
        None \<Rightarrow> Some st
      | Some g \<Rightarrow>
          (case invalidate om g ctx of
             Returned g' fwd \<Rightarrow> Some (st\<lparr>u_owningGroup := Some g'\<rparr>)
           | NonNumeric \<Rightarrow> None))"

text \<open>Modelled from the spec: two unrotated, unscaled rectangles with stroke width 0,
  placed by their top left corner (the rectangle class is not among the sources): the
  transformed dimensions are the width and height, the centre is half of them away
  from \<open>(left, top)\<close>.\<close>

definition rect :: "real \<Rightarrow> real \<Rightarrow> real \<Rightarrow> real \<Rightarrow> child" where
  "rect l t w h = Child l t (w / 2, h / 2) (w, h) 0 False True"

subsection \<open>Sequences of calls and sample inputs\<close>

text \<open>A sequence of \<open>invalidate\<close> calls on one group, each with its own context.\<close>

fun invalidateAll :: "objectMethods \<Rightarrow> fgroup \<Rightarrow> layoutContext list \<Rightarrow> layoutOutcome" where
  "invalidateAll om this [] = Returned this None"
| "invalidateAll om this (ctx # ctxs) =
     (case invalidate om this ctx of
        Returned g fwd \<Rightarrow> invalidateAll om g ctxs
      | NonNumeric \<Rightarrow> NonNumeric)"

text \<open>
  A \<open>fit-content\<close> group past its first layout, holding the two rectangles of the
  first scenario, and a context that carries nothing but its type.
\<close>

definition scenario1 :: fgroup where
  "scenario1 =
     \<lparr>layout = ''fit-content'', left = 0, top' = 0, width = 0, height = 0, angle = 0,
      skewX = 0, skewY = 0, originX = 0, originY = 0, subTargetCheck = False,
      objects = [rect 10 (-30) 30 10, rect (-40) (-10) 10 40],
      clipPath = None, group' = None, canvas = None, ownCaching = True, dirty = False,
      firstLayoutDone = True, layoutInProgress = False\<rparr>"

definition trigger :: "contextType \<Rightarrow> layoutContext" where
  "trigger t = \<lparr>c_type = t, c_options = None, c_objectsRelativeToGroup = False,
     c_targets = [], c_context = None, c_path = None\<rparr>"

text \<open>
  "Explicit left, top, width and height options were all given": the four tests
  \<open>typeof options.x === 'number'\<close> of \<open>prepareInitialBoundingBox\<close> succeed.
  \<open>explicitOptions\<close> and \<open>fixedGroup\<close> are a sample of such options and a \<open>fixed\<close>
  group under construction that was given them.
\<close>

definition hasExplicitBox :: "layoutContext \<Rightarrow> bool" where
  "hasExplicitBox ctx =
     (case c_options ctx of
        None \<Rightarrow> False
      | Some opts \<Rightarrow> opt_left opts \<noteq> None \<and> opt_top opts \<noteq> None
                     \<and> opt_width opts \<noteq> None \<and> opt_height opts \<noteq> None)"

definition explicitOptions :: options where
  "explicitOptions = \<lparr>opt_left = Some 0, opt_top = Some 0, opt_width = Some 100,
     opt_height = Some 100, opt_angle = None, opt_skewX = None, opt_skewY = None\<rparr>"

definition fixedGroup :: fgroup where
  "fixedGroup = scenario1\<lparr>layout := ''fixed'', width := 100, height := 100, firstLayoutDone := False\<rparr>"

text \<open>
  A \<open>fit-content-lazy\<close> group as a full layout leaves it: centred at (100, 100) in
  its parent's plane, 10 by 10, around one rectangle that spans (-5, -5) to (5, 5) in
  the group's plane. \<open>grownLazyGroup\<close> is that group once a rectangle spanning (0, 0)
  to (20, 20) in the group's plane was pushed onto \<open>_objects\<close>, which \<open>add\<close> does
  before it raises the \<open>added\<close> trigger; \<open>addedContext\<close> is the context of that
  trigger for given targets.
\<close>

definition builtLazyGroup :: fgroup where
  "builtLazyGroup = scenario1\<lparr>layout := ''fit-content-lazy'', left := 100, top' := 100,
     width := 10, height := 10, objects := [rect (-5) (-5) 10 10]\<rparr>"

definition grownLazyGroup :: fgroup where
  "grownLazyGroup = builtLazyGroup\<lparr>objects := [rect (-5) (-5) 10 10, rect 0 0 20 20]\<rparr>"

definition addedContext :: "child list \<Rightarrow> layoutContext" where
  "addedContext ts = (trigger Added)\<lparr>c_targets := ts\<rparr>"

section \<open>The ownership tree: entering and leaving a group\<close>

text \<open>
  Objects and groups refer to each other (\<open>object.group\<close>, \<open>group._objects\<close>), and
  entering one group mutates another, so this part of the model is a store: a scene
  maps the identity of an object to its state. The state holds the stored transform
  (what \<open>calcOwnMatrix()\<close> returns and \<open>applyTransformToObject\<close> rewrites; \<open>None\<close>
  when its entries are not finite numbers, as after an inversion that failed), the
  back-references \<open>group\<close> and \<open>canvas\<close>, and for a group its \<open>_objects\<close>,
  \<open>_activeObjects\<close> and \<open>dirty\<close>. Event subscriptions (\<open>_watchObject\<close>), fired
  events and the cached corner coordinates of \<open>setCoords\<close> are not part of the state.

  \<open>s_self\<close> holds the properties of the object that a layout pass reads and writes,
  in the record of the sections above; its fields \<open>objects\<close> and \<open>group'\<close> are
  filled in from \<open>_objects\<close> and \<open>group\<close> when a pass runs (\<open>groupView\<close> below),
  its fields \<open>canvas\<close> and \<open>dirty\<close> are not read by a pass, and a plain object
  has the geometric ones only. The object class, which is not among the sources,
  relates these properties to the stored transform: \<open>calcOwnMatrix\<close> composes
  them, \<open>applyTransformToObject\<close> decomposes a matrix into them. The store keeps
  the two side by side. A layout pass that moves an object moves its stored
  transform with it (\<open>moveObject\<close> below); the decomposition is not modelled, and
  the properties of an object whose transform \<open>applyTransformToObject\<close> rewrote
  are left as they were.
\<close>

record sobject =
  s_ownMatrix :: "matrix option"
  s_group :: "nat option"
  s_canvas :: "nat option"
  s_objects :: "nat list"
  s_activeObjects :: "nat list"
  s_dirty :: bool
  s_self :: fgroup

type_synonym scene = "nat \<Rightarrow> sobject"

text \<open>
  The matrix utilities on transforms that may have entries that are not finite: such
  entries stay in every product, and a matrix that has them cannot be inverted.
\<close>

definition multiplyMaybe :: "matrix option \<Rightarrow> matrix option \<Rightarrow> matrix option" where
  "multiplyMaybe m n =
     (case m of None \<Rightarrow> None | Some a \<Rightarrow> map_option (multiplyTransformMatrices a) n)"

definition invertMaybe :: "matrix option \<Rightarrow> matrix option" where
  "invertMaybe m = Option.bind m invertTransform"

text \<open>
  Modelled from the spec: \<open>calcTransformMatrix()\<close> of the object class, which is not
  among the sources, is the world transform: the own matrix composed with the
  matrices of all owning groups. On a cyclic chain of groups the call does not return
  (\<open>None\<close>).
\<close>

partial_function (option) calcTransformMatrix :: "scene \<Rightarrow> nat \<Rightarrow> matrix option option" where
  "calcTransformMatrix s this =
     (case s_group (s this) of
        None \<Rightarrow> Some (s_ownMatrix (s this))
      | Some p \<Rightarrow>
          Option.bind (calcTransformMatrix s p)
            (\<lambda>m. Some (multiplyMaybe m (s_ownMatrix (s this)))))"

text \<open>
  Modelled from the spec: \<open>this.isDescendantOf(target)\<close> (object class, not among the
  sources) walks up from \<open>this.group\<close> and answers whether it meets \<open>target\<close>; the
  walk ends with \<open>false\<close> where the chain of groups ends (at the canvas, if any).
\<close>

partial_function (option) ancestorLoop :: "scene \<Rightarrow> nat \<Rightarrow> nat option \<Rightarrow> bool option" where
  "ancestorLoop s target parent =
     (case parent of
        None \<Rightarrow> Some False
      | Some p \<Rightarrow> if target = p then Some True else ancestorLoop s target (s_group (s p)))"

definition isDescendantOf :: "scene \<Rightarrow> nat \<Rightarrow> nat \<Rightarrow> bool option" where
  "isDescendantOf s this target = ancestorLoop s target (s_group (s this))"

text \<open>
  \<open>object._set('canvas', value)\<close>: the group's \<open>_set\<close> assigns the property and, when
  the value changed, sets it on every child, which does the same. \<open>todo\<close> holds the
  objects still to be visited, in the order of the recursion.
\<close>

partial_function (option) setCanvasAll :: "scene \<Rightarrow> nat list \<Rightarrow> nat option \<Rightarrow> scene option" where
  "setCanvasAll s todo v =
     (case todo of
        [] \<Rightarrow> Some s
      | obj # rest \<Rightarrow>
          (let prev = s_canvas (s obj);
               s1 = s(obj := (s obj)\<lparr>s_canvas := v\<rparr>)
           in if prev \<noteq> v then setCanvasAll s1 (s_objects (s1 obj) @ rest) v
              else setCanvasAll s1 rest v))"

text \<open>
  Modelled from the spec: \<open>applyTransformToObject(object, m)\<close> (utility, not among the
  sources) rewrites the stored transform of the object to \<open>m\<close>.
\<close>

definition applyTransformToObject :: "scene \<Rightarrow> nat \<Rightarrow> matrix option \<Rightarrow> scene" where
  "applyTransformToObject s obj m = s(obj := (s obj)\<lparr>s_ownMatrix := m\<rparr>)"

text \<open>\<open>_enterGroup\<close> and \<open>_exitGroup\<close> (the primes stand for the leading underscore).\<close>

definition enterGroup' :: "scene \<Rightarrow> nat \<Rightarrow> nat \<Rightarrow> bool \<Rightarrow> scene option" where
  "enterGroup' s this obj removeParentTransform =
     Option.bind
       (if removeParentTransform
        then Option.bind (calcTransformMatrix s this) (\<lambda>tm.
             Option.bind (calcTransformMatrix s obj) (\<lambda>om.
               Some (applyTransformToObject s obj
                       (multiplyMaybe (invertMaybe tm) om))))
        else Some s)
       (\<lambda>s1. let s2 = s1(obj := (s1 obj)\<lparr>s_group := Some this\<rparr>)
             in setCanvasAll s2 [obj] (s_canvas (s2 this)))"

definition exitGroup' :: "scene \<Rightarrow> nat \<Rightarrow> nat \<Rightarrow> bool \<Rightarrow> scene option" where
  "exitGroup' s this obj removeParentTransform =
     (let s1 = s(obj := (s obj)\<lparr>s_group := None\<rparr>)
      in Option.bind
           (if \<not> removeParentTransform
            then Option.bind (calcTransformMatrix s1 this) (\<lambda>tm.
                 Option.bind (calcTransformMatrix s1 obj) (\<lambda>om.
                   Some (applyTransformToObject s1 obj (multiplyMaybe tm om))))
            else Some s1)
           (\<lambda>s2. Some (s2(this := (s2 this)\<lparr>s_activeObjects := remove1 obj (s_activeObjects (s2 this))\<rparr>))))"

definition exitGroup :: "scene \<Rightarrow> nat \<Rightarrow> nat \<Rightarrow> bool \<Rightarrow> scene option" where
  "exitGroup s this obj removeParentTransform =
     Option.bind (exitGroup' s this obj removeParentTransform)
       (\<lambda>s1. setCanvasAll s1 [obj] None)"

text \<open>
  The layout pass on a group of the scene is \<open>_applyLayoutStrategy\<close> of the
  sections above, run on the group as the scene has it. \<open>objectView\<close> is a child as
  the pass reads it: its position, its \<open>getRelativeCenterPoint()\<close> and
  \<open>_getTransformedDimensions()\<close>, its angle, whether its layout is
  \<open>'fill-parent'\<close> and whether its \<open>group\<close> is the group at hand. (The layer
  subclass is not among the sources: a scene holds plain objects and groups, and a
  group that is a child of another is read by it as any object.) \<open>ancestorView\<close>
  is the chain of owners from a group upwards, and \<open>groupView\<close> the group with its
  children and owners filled in; on a cyclic chain of owners there is no such value
  (\<open>None\<close>).
\<close>

definition objectView :: "objectMethods \<Rightarrow> scene \<Rightarrow> nat \<Rightarrow> nat \<Rightarrow> child" where
  "objectView om s this obj =
     (let self = s_self (s obj)
      in Child (left self) (top' self)
           (p_subtract (m_getRelativeCenterPoint om self) (left self, top' self))
           (m_getTransformedDimensions om self \<lparr>d_width = None, d_height = None, d_strokeWidth = None\<rparr>)
           (angle self) (layout self = ''fill-parent'') (s_group (s obj) = Some this))"

partial_function (option) ancestorView :: "objectMethods \<Rightarrow> scene \<Rightarrow> nat \<Rightarrow> ancestor option" where
  "ancestorView om s i =
     (case s_group (s i) of
        None \<Rightarrow> Some (Ancestor (ownCaching (s_self (s i))) (m_calcOwnMatrix om (s_self (s i))) None)
      | Some p \<Rightarrow>
          Option.bind (ancestorView om s p)
            (\<lambda>a. Some (Ancestor (ownCaching (s_self (s i))) (m_calcOwnMatrix om (s_self (s i))) (Some a))))"

definition groupView :: "objectMethods \<Rightarrow> scene \<Rightarrow> nat \<Rightarrow> fgroup option" where
  "groupView om s this =
     Option.bind (case s_group (s this) of
                    None \<Rightarrow> Some None
                  | Some p \<Rightarrow> map_option Some (ancestorView om s p))
       (\<lambda>owner. Some ((s_self (s this))\<lparr>objects := map (objectView om s this) (s_objects (s this)),
                                          group' := owner\<rparr>))"

text \<open>
  What the pass wrote goes back to the scene: the properties of the group, and for
  each child the displacement that \<open>_adjustObjectPosition\<close> gave it (an object that
  is listed twice in \<open>_objects\<close> is visited twice by \<open>forEachObject\<close>, and moved
  twice).

  Modelled from the spec: the transform of an object is derived from its properties
  (\<open>calcOwnMatrix\<close> and \<open>composeMatrix\<close>, not among the sources), with the
  relative centre of the object as its translation. So the stored transform of a
  child moved by a vector is translated by that vector, and the stored transform of
  the group by the displacement of its relative centre. (Angle and skew are
  assigned by a pass of type \<open>initialization\<close> only, which the constructor runs
  and no operation of this section does.)
\<close>

definition translateStored :: "matrix option \<Rightarrow> point \<Rightarrow> matrix option" where
  "translateStored m v =
     map_option (\<lambda>(a, b, c, d, e, f). (a, b, c, d, e + fst v, f + snd v)) m"

definition moveObject :: "scene \<Rightarrow> nat \<Rightarrow> point \<Rightarrow> scene" where
  "moveObject s obj v =
     s(obj := (s obj)\<lparr>s_self := (s_self (s obj))\<lparr>left := left (s_self (s obj)) + fst v,
                                                    top' := top' (s_self (s obj)) + snd v\<rparr>,
                       s_ownMatrix := translateStored (s_ownMatrix (s obj)) v\<rparr>)"

fun moveObjects :: "scene \<Rightarrow> (nat \<times> child \<times> child) list \<Rightarrow> scene" where
  "moveObjects s [] = s"
| "moveObjects s ((obj, before, after) # rest) =
     moveObjects (moveObject s obj (o_left after - o_left before, o_top after - o_top before)) rest"

definition writeBack :: "objectMethods \<Rightarrow> scene \<Rightarrow> nat \<Rightarrow> fgroup \<Rightarrow> fgroup \<Rightarrow> scene" where
  "writeBack om s this before after =
     moveObjects
       (s(this := (s this)\<lparr>s_self := after\<lparr>objects := [], group' := None\<rparr>,
                            s_ownMatrix := translateStored (s_ownMatrix (s this))
                               (p_subtract (m_getRelativeCenterPoint om after)
                                           (m_getRelativeCenterPoint om before))\<rparr>))
       (zip (s_objects (s this)) (zip (objects before) (objects after)))"

text \<open>
  \<open>_applyLayoutStrategy\<close> on a group of the scene, with the call of
  \<open>this.group._applyLayoutStrategy\<close> that \<open>_bubbleLayout\<close> makes. The result is
  the scene after the pass and a flag; there is none (\<open>None\<close>) on a cyclic chain of
  owners, which \<open>canEnterGroup\<close> is there to rule out and on which the group has no
  view. The flag is false when a pass met geometry that is not a finite number
  (\<open>NonNumeric\<close> above): the geometry of the objects of the program is then
  outside the model, which stops following the pass and returns the scene it had. A
  pass assigns geometry only: \<open>group\<close>, \<open>_objects\<close>, \<open>_activeObjects\<close>,
  \<open>canvas\<close> and \<open>dirty\<close> of the scene returned are those of the program in
  either case.
\<close>

partial_function (option) applyLayoutStrategyAt ::
  "objectMethods \<Rightarrow> scene \<Rightarrow> nat \<Rightarrow> layoutContext \<Rightarrow> (scene \<times> bool) option" where
  "applyLayoutStrategyAt om s this ctx =
     (case groupView om s this of
        None \<Rightarrow> None
      | Some g \<Rightarrow>
          (case applyLayoutStrategy om g ctx of
             NonNumeric \<Rightarrow> Some (s, False)
           | Returned g' forwarded \<Rightarrow>
               (let s1 = writeBack om s this g g'
                in case forwarded of
                     None \<Rightarrow> Some (s1, True)
                   | Some ctx' \<Rightarrow>
                       (case s_group (s1 this) of
                          None \<Rightarrow> Some (s1, True)
                        | Some p \<Rightarrow> applyLayoutStrategyAt om s1 p ctx'))))"

text \<open>
  \<open>_onAfterObjectsChange(type, targets)\<close>: the layout pass with the context
  \<open>{type, targets}\<close>, then \<open>_set('dirty', true)\<close>.
\<close>

definition onAfterObjectsChange ::
  "objectMethods \<Rightarrow> scene \<Rightarrow> nat \<Rightarrow> contextType \<Rightarrow> nat list \<Rightarrow> (scene \<times> bool) option" where
  "onAfterObjectsChange om s this t targets =
     Option.bind
       (applyLayoutStrategyAt om s this
          \<lparr>c_type = t, c_options = None, c_objectsRelativeToGroup = False,
           c_targets = map (objectView om s this) targets, c_context = None, c_path = None\<rparr>)
       (\<lambda>(s1, numeric). Some (s1(this := (s1 this)\<lparr>s_dirty := True\<rparr>), numeric))"

text \<open>
  Modelled from the spec: \<open>remove(object)\<close>, whose loop is the collection mixin's
  (not among the sources): the first occurrence of the object is spliced out of
  \<open>_objects\<close> and \<open>_onObjectRemoved\<close> runs the exit protocol on it; an object that
  is not in \<open>_objects\<close> is skipped. Then \<open>_onAfterObjectsChange('removed', removed)\<close>.
\<close>

definition group_remove :: "objectMethods \<Rightarrow> scene \<Rightarrow> nat \<Rightarrow> nat \<Rightarrow> (scene \<times> bool) option" where
  "group_remove om s this obj =
     (if obj \<in> set (s_objects (s this))
      then (let s1 = s(this := (s this)\<lparr>s_objects := remove1 obj (s_objects (s this))\<rparr>)
            in Option.bind (exitGroup s1 this obj False)
                 (\<lambda>s2. onAfterObjectsChange om s2 this Removed [obj]))
      else onAfterObjectsChange om s this Removed [])"

text \<open>
  \<open>canEnterGroup\<close> throws; the thrown error is the \<open>Inl\<close> value. \<open>enterGroup\<close> is the
  second of the two properties of that name in the class body, the one in force. It
  returns the outcome together with the scene it leaves behind and the flag of the
  layout pass that \<open>remove\<close> ran, if it ran one. \<open>getActiveObject\<close> maps a canvas
  to its active object, if it has one.
\<close>

datatype groupError = AddGroupToItself | DuplicateObject

definition canEnterGroup :: "scene \<Rightarrow> nat \<Rightarrow> nat \<Rightarrow> (groupError + bool) option" where
  "canEnterGroup s this obj =
     (if obj = this then Some (Inl AddGroupToItself)
      else Option.bind (isDescendantOf s this obj) (\<lambda>d.
        if d then Some (Inl AddGroupToItself)
        else if s_group (s obj) = Some this then Some (Inl DuplicateObject)
        else Some (Inr True)))"

definition enterGroup ::
  "objectMethods \<Rightarrow> (nat \<Rightarrow> nat option) \<Rightarrow> scene \<Rightarrow> nat \<Rightarrow> nat \<Rightarrow> bool
     \<Rightarrow> ((groupError + bool) \<times> scene \<times> bool) option" where
  "enterGroup om getActiveObject s this obj removeParentTransform =
     Option.bind (canEnterGroup s this obj) (\<lambda>c.
       case c of
         Inl e \<Rightarrow> Some (Inl e, s, True)
       | Inr ok \<Rightarrow>
           if \<not> ok then Some (Inr False, s, True)
           else
             Option.bind (case s_group (s obj) of
                            None \<Rightarrow> Some (s, True)
                          | Some p \<Rightarrow> group_remove om s p obj) (\<lambda>(s1, numeric).
             Option.bind (enterGroup' s1 this obj removeParentTransform) (\<lambda>s2.
               (case Option.bind (s_canvas (s2 this)) getActiveObject of
                  None \<Rightarrow> Some (Inr True, s2, numeric)
                | Some activeObject \<Rightarrow>
                    Option.bind (if activeObject = obj then Some True
                                 else isDescendantOf s2 obj activeObject) (\<lambda>b.
                      Some (Inr True,
                            if b then s2(this := (s2 this)\<lparr>s_activeObjects := s_activeObjects (s2 this) @ [obj]\<rparr>)
                            else s2,
                            numeric))))))"

text \<open>
  Notions used to state properties of scenes: two scenes that differ in \<open>canvas\<close>
  fields only; a finite set of objects closed under \<open>_objects\<close>; an object whose
  chain of owning groups ends; two scenes with the same \<open>group\<close> and \<open>_objects\<close>
  fields; two scenes that differ in geometry (the properties \<open>s_self\<close> and the
  stored transforms) only.
\<close>

definition sameButCanvas :: "scene \<Rightarrow> scene \<Rightarrow> bool" where
  "sameButCanvas s s' = (\<forall>i. s' i = (s i)\<lparr>s_canvas := s_canvas (s' i)\<rparr>)"

definition childClosed :: "scene \<Rightarrow> nat set \<Rightarrow> bool" where
  "childClosed s A = (finite A \<and> (\<forall>i\<in>A. set (s_objects (s i)) \<subseteq> A))"

inductive rooted :: "scene \<Rightarrow> nat \<Rightarrow> bool" where
  root: "s_group (s i) = None \<Longrightarrow> rooted s i"
| child: "s_group (s i) = Some p \<Longrightarrow> rooted s p \<Longrightarrow> rooted s i"

code_pred rooted .

definition sameTree :: "scene \<Rightarrow> scene \<Rightarrow> bool" where
  "sameTree s s' = (\<forall>i. s_group (s' i) = s_group (s i) \<and> s_objects (s' i) = s_objects (s i))"

definition sameButGeometry :: "scene \<Rightarrow> scene \<Rightarrow> bool" where
  "sameButGeometry s s' =
     (\<forall>i. s_group (s' i) = s_group (s i) \<and> s_canvas (s' i) = s_canvas (s i)
          \<and> s_objects (s' i) = s_objects (s i)
          \<and> s_activeObjects (s' i) = s_activeObjects (s i) \<and> s_dirty (s' i) = s_dirty (s i))"

text \<open>
  The world transform of an object after it entered a group with
  \<open>removeParentTransform\<close> and left it at once without.
\<close>

definition roundTrip :: "scene \<Rightarrow> nat \<Rightarrow> nat \<Rightarrow> matrix option option" where
  "roundTrip s this obj =
     Option.bind (enterGroup' s this obj True) (\<lambda>s1.
     Option.bind (exitGroup' s1 this obj False) (\<lambda>s2.
       calcTransformMatrix s2 obj))"

text \<open>
  A sample scene: group 0 at (5, 5) owns object 2, group 1 (scaled by 2, at (10, 20))
  owns object 3, group 4 has \<open>scaleX\<close> 0. \<open>objectProps\<close> are the properties of an
  object of a given size centred at a given point, with no layout of its own.
\<close>

definition objectProps :: "real \<Rightarrow> real \<Rightarrow> real \<Rightarrow> real \<Rightarrow> fgroup" where
  "objectProps l t w h =
     \<lparr>layout = '''', left = l, top' = t, width = w, height = h, angle = 0,
      skewX = 0, skewY = 0, originX = 0, originY = 0, subTargetCheck = False,
      objects = [], clipPath = None, group' = None, canvas = None, ownCaching = False,
      dirty = False, firstLayoutDone = False, layoutInProgress = False\<rparr>"

definition plainObject :: "matrix \<Rightarrow> nat option \<Rightarrow> nat list \<Rightarrow> sobject" where
  "plainObject m g objs = \<lparr>s_ownMatrix = Some m, s_group = g, s_canvas = None, s_objects = objs,
     s_activeObjects = [], s_dirty = False,
     s_self = (case m of (a, b, c, d, e, f) \<Rightarrow> objectProps e f 0 0)\<rparr>"

definition sampleScene :: scene where
  "sampleScene =
     (\<lambda>i. plainObject iMatrix None [])
       (0 := plainObject (1, 0, 0, 1, 5, 5) None [2],
        1 := plainObject (2, 0, 0, 2, 10, 20) None [3],
        2 := plainObject (1, 0, 0, 1, 3, 4) (Some 0) [],
        3 := plainObject iMatrix (Some 1) [],
        4 := plainObject (0, 0, 0, 1, 0, 0) None [])"

text \<open>
  A scene with layouts: group 0, \<open>fit-content\<close>, 80 by 60 and centred at the origin
  of the canvas, owns object 2 (30 by 10, centred at (25, -25)) and object 5 (10 by
  40, centred at (-35, 10)); group 1, \<open>fit-content\<close> and empty, is centred at
  (100, 100). And a scene in the state the constructor of a group has when it starts
  its calls of \<open>enterGroup\<close>: group 0 lists object 2 in \<open>_objects\<close>, and the object
  has no \<open>group\<close> yet.
\<close>

definition layoutObject :: "fgroup \<Rightarrow> nat option \<Rightarrow> nat list \<Rightarrow> sobject" where
  "layoutObject self g objs =
     \<lparr>s_ownMatrix = Some (1, 0, 0, 1, left self, top' self), s_group = g, s_canvas = None,
      s_objects = objs, s_activeObjects = [], s_dirty = False, s_self = self\<rparr>"

definition layoutScene :: scene where
  "layoutScene =
     (\<lambda>i. layoutObject (objectProps 0 0 0 0) None [])
       (0 := layoutObject ((objectProps 0 0 80 60)\<lparr>layout := ''fit-content'', firstLayoutDone := True\<rparr>)
               None [2, 5],
        1 := layoutObject ((objectProps 100 100 0 0)\<lparr>layout := ''fit-content'', firstLayoutDone := True\<rparr>)
               None [],
        2 := layoutObject (objectProps 25 (-25) 30 10) (Some 0) [],
        5 := layoutObject (objectProps (-35) 10 10 40) (Some 0) [])"

definition constructionScene :: scene where
  "constructionScene =
     (\<lambda>i. layoutObject (objectProps 0 0 0 0) None [])
       (0 := layoutObject ((objectProps 0 0 0 0)\<lparr>layout := ''fit-content''\<rparr>) None [2],
        2 := layoutObject (objectProps 25 (-25) 30 10) None [])"

section \<open>Properties of the registry\<close>

text \<open>
  Claim C9 (amended). In strict mode \<open>getJSONHandler\<close> throws whenever the resolved key
  is falsy or has no entry in the registry; and whenever the resolved key is truthy and
  has an entry, that entry's \<open>json\<close> handler is returned and nothing is thrown (in
  either mode).
\<close>

theorem getJSONHandler_strict:
  "(\<not> truthy (resolveJSONKey data) \<or> registry_get reg (resolveJSONKey data) = None
      \<longrightarrow> getJSONHandler reg data True = Inl (JSONHandlerError (resolveJSONKey data)))
   \<and> (truthy (resolveJSONKey data) \<and> registry_get reg (resolveJSONKey data) = Some e
      \<longrightarrow> getJSONHandler reg data strict = Inr (Handler (json e)))"
  by (auto simp add: getJSONHandler_def Let_def split: option.splits)

theorem getJSONHandler_strict_witness:
  "getJSONHandler (Map.empty :: nat registry) [''type'' \<mapsto> JStr ''rect''] True
     = Inl (JSONHandlerError (JStr ''rect''))
   \<and> getJSONHandler [''rect'' \<mapsto> \<lparr>json = (7::nat), svg = None\<rparr>] [''type'' \<mapsto> JStr ''rect''] True
     = Inr (Handler 7)"
  using getJSONHandler_strict [of "[''type'' \<mapsto> JStr ''rect'']" "Map.empty :: nat registry" undefined True]
        getJSONHandler_strict [of "[''type'' \<mapsto> JStr ''rect'']" "[''rect'' \<mapsto> \<lparr>json = (7::nat), svg = None\<rparr>]"
           "\<lparr>json = (7::nat), svg = None\<rparr>" True]
  by (simp add: resolveJSONKey_def getProp_def registry_get_def)

text \<open>
  The claim as written fails for the empty key: a handler registered under \<open>""\<close> is
  never returned, because \<open>!!key\<close> is false for the empty string.
\<close>

theorem getJSONHandler_empty_key_counterexample:
  "registry_get [[] \<mapsto> \<lparr>json = (7::nat), svg = None\<rparr>] (resolveJSONKey [''type'' \<mapsto> JStr []])
      = Some \<lparr>json = 7, svg = None\<rparr>
   \<and> getJSONHandler [[] \<mapsto> \<lparr>json = (7::nat), svg = None\<rparr>] [''type'' \<mapsto> JStr []] True
      = Inl (JSONHandlerError (JStr []))"
  by (simp add: getJSONHandler_def resolveJSONKey_def getProp_def registry_get_def)

text \<open>
  Claim C10 (amended). For every record whose \<open>colorStops\<close> field is truthy,
  \<open>resolveJSONKey\<close> returns \<open>'gradient'\<close>, whatever the record's \<open>type\<close> field holds.
\<close>

theorem resolveJSONKey_colorStops:
  "truthy (getProp data ''colorStops'') \<Longrightarrow> resolveJSONKey data = JStr ''gradient''"
  by (simp add: resolveJSONKey_def)

theorem resolveJSONKey_colorStops_witness:
  "truthy (getProp [''colorStops'' \<mapsto> JArr [], ''type'' \<mapsto> JStr ''rect''] ''colorStops'')
   \<and> resolveJSONKey [''colorStops'' \<mapsto> JArr [], ''type'' \<mapsto> JStr ''rect''] = JStr ''gradient''"
proof -
  have h: "truthy (getProp [''colorStops'' \<mapsto> JArr [], ''type'' \<mapsto> JStr ''rect''] ''colorStops'')"
    by (simp add: getProp_def)
  show ?thesis using h resolveJSONKey_colorStops [OF h] by simp
qed

text \<open>
  A record that contains a \<open>colorStops\<close> field holding a falsy value (here \<open>null\<close>) is
  resolved by its \<open>type\<close>.
\<close>

theorem resolveJSONKey_falsy_colorStops_counterexample:
  "[''colorStops'' \<mapsto> JNull, ''type'' \<mapsto> JStr ''rect''] ''colorStops'' = Some JNull
   \<and> resolveJSONKey [''colorStops'' \<mapsto> JNull, ''type'' \<mapsto> JStr ''rect''] = JStr ''rect''
   \<and> resolveJSONKey [''colorStops'' \<mapsto> JNull, ''type'' \<mapsto> JStr ''rect''] \<noteq> JStr ''gradient''"
  by (simp add: resolveJSONKey_def getProp_def)


section \<open>Properties of the layout pass\<close>

lemma progress_no_result:
  "c_type ctx = Progress \<Longrightarrow> getLayoutStrategyResult om this directive objs ctx = None"
  by (simp add: getLayoutStrategyResult_def)

lemma progress_dropped:
  "c_type ctx = Progress \<Longrightarrow> applyLayoutStrategy om this ctx = Returned this None"
  by (simp add: applyLayoutStrategy_def progress_no_result)

lemma invalidate_result:
  "invalidate om this ctx =
     Returned (if isOnACache this \<and> (case canvas this of None \<Rightarrow> True | Some cv \<Rightarrow> preserveObjectStacking cv)
               then this\<lparr>dirty := True\<rparr> else this) None"
  by (simp add: invalidate_def progress_dropped)

lemma invalidateAll_frame:
  "\<exists>d. invalidateAll om this ctxs = Returned (this\<lparr>dirty := d\<rparr>) None"
proof (induction ctxs arbitrary: this)
  case Nil
  have "this\<lparr>dirty := dirty this\<rparr> = this" by simp
  then have "invalidateAll om this [] = Returned (this\<lparr>dirty := dirty this\<rparr>) None" by simp
  then show ?case by blast
next
  case (Cons c cs)
  show ?case
  proof (cases "isOnACache this \<and> (case canvas this of None \<Rightarrow> True | Some cv \<Rightarrow> preserveObjectStacking cv)")
    case True
    then have "invalidateAll om this (c # cs) = invalidateAll om (this\<lparr>dirty := True\<rparr>) cs"
      by (simp add: invalidate_result)
    moreover obtain d where
      "invalidateAll om (this\<lparr>dirty := True\<rparr>) cs = Returned (this\<lparr>dirty := True, dirty := d\<rparr>) None"
      using Cons.IH by blast
    ultimately have "invalidateAll om this (c # cs) = Returned (this\<lparr>dirty := d\<rparr>) None"
      by simp
    then show ?thesis by blast
  next
    case False
    then have "invalidateAll om this (c # cs) = invalidateAll om this cs"
      by (auto simp add: invalidate_result)
    then show ?thesis using Cons.IH by simp
  qed
qed

lemma scenario1_bbox:
  "getObjectsBoundingBox own [rect 10 (-30) 30 10, rect (-40) (-10) 10 40] io
     = Some (makeBBox own io (False, (-40, -30), (40, 30)))"
  by (simp add: rect_def accumulate_def getRelativeCenterPoint_def rotateSizeVector_def
        scalarDivide_def p_add_def p_subtract_def Let_def)

lemma makeBBox_size:
  "bb_width (makeBBox own io (f, mn, mx)) = fst mx - fst mn"
  "bb_height (makeBBox own io (f, mn, mx)) = snd mx - snd mn"
  by (simp_all add: makeBBox_def Let_def p_subtract_def)

lemma makeBBox_center_identity:
  "bb_centerX (makeBBox (1, 0, 0, 1, e, f) False (b, mn, mx)) = fst mn + (fst mx - fst mn) * (1/2) + e"
  "bb_centerY (makeBBox (1, 0, 0, 1, e, f) False (b, mn, mx)) = snd mn + (snd mx - snd mn) * (1/2) + f"
  by (simp_all add: makeBBox_def Let_def midPointFrom_def transformPoint_def)

lemma scenario1_result:
  "getLayoutStrategyResult centeredMethods (scenario1\<lparr>layoutInProgress := True\<rparr>) ''fit-content''
      [rect 10 (-30) 30 10, rect (-40) (-10) 10 40] (trigger Added)
   = Some (bboxResult (makeBBox (1, 0, 0, 1, 0, 0) False (False, (-40, -30), (40, 30))))"
  unfolding getLayoutStrategyResult_def prepareBoundingBox_def scenario1_bbox
  by (simp add: trigger_def centeredMethods_def scenario1_def)

text \<open>
  Claim C1 (amended). On a container that has completed its first layout, a call of
  \<open>_applyLayoutStrategy\<close> with a context of type \<open>progress\<close> made while
  \<open>_layoutInProgress\<close> is set is dropped: it returns with the container, and so its
  width, height, centre and children, exactly as they were, and forwards nothing to
  the owning container.
\<close>

theorem reentrant_progress_dropped:
  "firstLayoutDone this \<Longrightarrow> layoutInProgress this \<Longrightarrow> c_type ctx = Progress
   \<Longrightarrow> applyLayoutStrategy om this ctx = Returned this None"
  by (rule progress_dropped)

theorem reentrant_progress_dropped_witness:
  "firstLayoutDone (scenario1\<lparr>layoutInProgress := True\<rparr>)
   \<and> layoutInProgress (scenario1\<lparr>layoutInProgress := True\<rparr>)
   \<and> c_type (trigger Progress) = Progress
   \<and> applyLayoutStrategy centeredMethods (scenario1\<lparr>layoutInProgress := True\<rparr>) (trigger Progress)
       = Returned (scenario1\<lparr>layoutInProgress := True\<rparr>) None"
proof -
  have a: "firstLayoutDone (scenario1\<lparr>layoutInProgress := True\<rparr>)"
    and b: "layoutInProgress (scenario1\<lparr>layoutInProgress := True\<rparr>)"
    and c: "c_type (trigger Progress) = Progress"
    by (simp_all add: scenario1_def trigger_def)
  show ?thesis
    using a b c reentrant_progress_dropped [OF a b c, of centeredMethods] by simp
qed

text \<open>
  The guard tests the type of the context: a call of type \<open>added\<close> made while the
  flag is set runs the layout and resizes the container from 0 by 0 to 80 by 60.
\<close>

theorem reentrant_added_counterexample:
  "layoutInProgress (scenario1\<lparr>layoutInProgress := True\<rparr>)
   \<and> firstLayoutDone (scenario1\<lparr>layoutInProgress := True\<rparr>)
   \<and> width (scenario1\<lparr>layoutInProgress := True\<rparr>) = 0
   \<and> height (scenario1\<lparr>layoutInProgress := True\<rparr>) = 0
   \<and> applyLayoutStrategy centeredMethods (scenario1\<lparr>layoutInProgress := True\<rparr>) (trigger Added)
       = Returned (scenario1\<lparr>width := 80, height := 60\<rparr>) None"
proof -
  have l: "layout (scenario1\<lparr>layoutInProgress := True\<rparr>) = ''fit-content''"
    and ob: "objects (scenario1\<lparr>layoutInProgress := True\<rparr>) = [rect 10 (-30) 30 10, rect (-40) (-10) 10 40]"
    by (simp_all add: scenario1_def)
  show ?thesis
    unfolding applyLayoutStrategy_def l ob scenario1_result
    by (simp add: trigger_def scenario1_def bboxResult_def makeBBox_size makeBBox_center_identity
          applyResult_def Let_def centeredMethods_def invertTransform_def transformPoint_def
          orZero_def p_add_def p_subtract_def rect_def bubbleLayout_def)
qed

text \<open>
  Claim C3. When a geometric change on a member under selection triggers
  invalidation, the call returns; the selection container is left exactly as it was,
  so its dirty flag is not set; and the owning container, if there is one, comes out
  with its dirty flag set if and only if it was set before or \<open>isOnACache()\<close> holds
  of it and it has no canvas or its canvas preserves object stacking, and with
  nothing else changed. A selection container that is not on a cache is not marked
  by its own \<open>invalidate\<close> either. Concretely, for every group and every
  invalidation context, \<open>invalidate\<close> returns with the dirty flag set under that
  same condition, changes nothing else of the group (no geometry is recomputed) and
  forwards nothing to the owning container.
\<close>

theorem selection_member_invalidation:
  "(\<exists>st'. memberChanged om st ctx = Some st'
       \<and> u_selection st' = u_selection st
       \<and> dirty (u_selection st') = dirty (u_selection st)
       \<and> (case u_owningGroup st of
             None \<Rightarrow> u_owningGroup st' = None
           | Some g \<Rightarrow>
               (\<exists>g'. u_owningGroup st' = Some g'
                  \<and> (dirty g' \<longleftrightarrow> dirty g
                        \<or> (isOnACache g
                            \<and> (canvas g = None
                                \<or> (\<exists>cv. canvas g = Some cv \<and> preserveObjectStacking cv))))
                  \<and> g'\<lparr>dirty := dirty g\<rparr> = g)))
   \<and> (\<not> isOnACache (u_selection st)
        \<longrightarrow> invalidate om (u_selection st) ctx = Returned (u_selection st) None)
   \<and> (\<exists>g. invalidate om this ctx = Returned g None
       \<and> (dirty g \<longleftrightarrow> dirty this
             \<or> (isOnACache this
                 \<and> (canvas this = None \<or> (\<exists>cv. canvas this = Some cv \<and> preserveObjectStacking cv))))
       \<and> g\<lparr>dirty := dirty this\<rparr> = this)"
proof -
  have inv: "\<exists>g. invalidate om x ctx = Returned g None
       \<and> (dirty g \<longleftrightarrow> dirty x
             \<or> (isOnACache x
                 \<and> (canvas x = None \<or> (\<exists>cv. canvas x = Some cv \<and> preserveObjectStacking cv))))
       \<and> g\<lparr>dirty := dirty x\<rparr> = x" for x
    by (cases "canvas x") (auto simp add: invalidate_result)
  have sel: "\<exists>st'. memberChanged om st ctx = Some st'
       \<and> u_selection st' = u_selection st
       \<and> dirty (u_selection st') = dirty (u_selection st)
       \<and> (case u_owningGroup st of
             None \<Rightarrow> u_owningGroup st' = None
           | Some g \<Rightarrow>
               (\<exists>g'. u_owningGroup st' = Some g'
                  \<and> (dirty g' \<longleftrightarrow> dirty g
                        \<or> (isOnACache g
                            \<and> (canvas g = None
                                \<or> (\<exists>cv. canvas g = Some cv \<and> preserveObjectStacking cv))))
                  \<and> g'\<lparr>dirty := dirty g\<rparr> = g))"
  proof (cases "u_owningGroup st")
    case None
    then show ?thesis by (simp add: memberChanged_def)
  next
    case (Some g)
    obtain g' where g': "invalidate om g ctx = Returned g' None"
      and d: "dirty g' \<longleftrightarrow> dirty g
                \<or> (isOnACache g
                    \<and> (canvas g = None \<or> (\<exists>cv. canvas g = Some cv \<and> preserveObjectStacking cv)))"
      and r: "g'\<lparr>dirty := dirty g\<rparr> = g"
      using inv [of g] by blast
    have "memberChanged om st ctx = Some (st\<lparr>u_owningGroup := Some g'\<rparr>)"
      using Some g' by (simp add: memberChanged_def)
    then show ?thesis using Some d r by simp
  qed
  have own: "\<not> isOnACache (u_selection st)
        \<longrightarrow> invalidate om (u_selection st) ctx = Returned (u_selection st) None"
    by (simp add: invalidate_result)
  show ?thesis using sel own inv [of this] by blast
qed

text \<open>
  The test of the selection container: an owning group that caches itself and a
  selection that does not, both clean and without canvas; then a group with a canvas
  that does not preserve object stacking.
\<close>

theorem selection_member_invalidation_witness:
  "(\<exists>st'. memberChanged centeredMethods
              \<lparr>u_owningGroup = Some scenario1, u_selection = scenario1\<lparr>ownCaching := False\<rparr>\<rparr>
              (trigger ObjectModified) = Some st'
        \<and> \<not> dirty (u_selection st')
        \<and> (\<exists>g'. u_owningGroup st' = Some g' \<and> dirty g' \<and> g'\<lparr>dirty := False\<rparr> = scenario1))
   \<and> \<not> isOnACache (scenario1\<lparr>ownCaching := False\<rparr>)
   \<and> invalidate centeredMethods (scenario1\<lparr>ownCaching := False\<rparr>) (trigger ObjectModified)
        = Returned (scenario1\<lparr>ownCaching := False\<rparr>) None
   \<and> (\<exists>g. invalidate centeredMethods
              (scenario1\<lparr>canvas := Some \<lparr>preserveObjectStacking = False\<rparr>\<rparr>) (trigger ObjectModified)
            = Returned g None
         \<and> \<not> dirty g
         \<and> g\<lparr>dirty := False\<rparr> = scenario1\<lparr>canvas := Some \<lparr>preserveObjectStacking = False\<rparr>\<rparr>)"
  using selection_member_invalidation [of centeredMethods
          "\<lparr>u_owningGroup = Some scenario1, u_selection = scenario1\<lparr>ownCaching := False\<rparr>\<rparr>"
          "trigger ObjectModified"
          "scenario1\<lparr>canvas := Some \<lparr>preserveObjectStacking = False\<rparr>\<rparr>"]
  by (auto simp add: scenario1_def isOnACache_def)

text \<open>
  Claim C5. For every container (past its first layout or not) and every layout
  directive, \<open>getLayoutStrategyResult\<close> returns no result for a context of type
  \<open>progress\<close>; a \<open>progress\<close> call of \<open>_applyLayoutStrategy\<close> returns the container
  as it was; and after any sequence of \<open>invalidate\<close> calls the container differs
  from the initial one in its dirty flag at most.
\<close>

theorem progress_idempotent:
  "getLayoutStrategyResult om this directive objs (ctx\<lparr>c_type := Progress\<rparr>) = None
   \<and> applyLayoutStrategy om this (ctx\<lparr>c_type := Progress\<rparr>) = Returned this None
   \<and> (\<exists>d. invalidateAll om this ctxs = Returned (this\<lparr>dirty := d\<rparr>) None)"
  by (simp add: progress_no_result progress_dropped invalidateAll_frame)

theorem progress_idempotent_witness:
  "getLayoutStrategyResult centeredMethods scenario1 ''fit-content-lazy'' (objects scenario1)
      ((trigger Added)\<lparr>c_type := Progress\<rparr>) = None
   \<and> applyLayoutStrategy centeredMethods scenario1 ((trigger Added)\<lparr>c_type := Progress\<rparr>)
       = Returned scenario1 None
   \<and> (\<exists>d. invalidateAll centeredMethods scenario1 [trigger Added, trigger ObjectModified]
            = Returned (scenario1\<lparr>dirty := d\<rparr>) None)"
  using progress_idempotent [of centeredMethods scenario1 "''fit-content-lazy''" "objects scenario1"
          "trigger Added" "[trigger Added, trigger ObjectModified]"]
  by simp


section \<open>Properties of the layout strategies\<close>

lemma two_rects_initial:
  assumes "case c_options ctx of None \<Rightarrow> True | Some opts \<Rightarrow> opt_width opts = None \<and> opt_height opts = None"
  shows "\<exists>r. prepareInitialBoundingBox om this d [rect 10 (-30) 30 10, rect (-40) (-10) 10 40] ctx = Some r
            \<and> r_width r = Some 80 \<and> r_height r = Some 60"
  using assms unfolding prepareInitialBoundingBox_def scenario1_bbox
  by (simp add: Let_def makeBBox_size split: option.splits)

lemma two_rects_prepare:
  assumes "c_type ctx = Initialization \<longrightarrow>
             (case c_options ctx of None \<Rightarrow> True | Some opts \<Rightarrow> opt_width opts = None \<and> opt_height opts = None)"
      and "c_type ctx = Imperative \<longrightarrow> c_context ctx = None"
  shows "\<exists>r. prepareBoundingBox om this d [rect 10 (-30) 30 10, rect (-40) (-10) 10 40] ctx = Some r
            \<and> r_width r = Some 80 \<and> r_height r = Some 60"
proof (cases "c_type ctx = Initialization")
  case True
  then show ?thesis using assms two_rects_initial [of ctx om this d]
    by (simp add: prepareBoundingBox_def)
next
  case False
  then show ?thesis using assms unfolding prepareBoundingBox_def scenario1_bbox
    by (auto simp add: bboxResult_def makeBBox_size)
qed

lemma initial_skipped:
  "hasExplicitBox ctx \<Longrightarrow> c_objectsRelativeToGroup ctx
   \<Longrightarrow> prepareInitialBoundingBox om this d objs ctx = None"
  by (simp add: prepareInitialBoundingBox_def hasExplicitBox_def Let_def split: option.splits)

lemma initial_not_skipped:
  assumes "hasExplicitBox ctx" and "\<not> c_objectsRelativeToGroup ctx" and "objs \<noteq> []"
  shows "\<exists>r. prepareInitialBoundingBox om this d objs ctx = Some r
           \<and> r_width r = Some (width this) \<and> r_height r = Some (height this)"
proof -
  obtain bb where bb: "getObjectsBoundingBox (m_calcOwnMatrix om this) objs False = Some bb"
    using assms(3) by simp
  show ?thesis
    using assms unfolding prepareInitialBoundingBox_def bb
    by (auto simp add: hasExplicitBox_def Let_def split: option.splits)
qed

text \<open>
  Claim C6. The bounding box of the two rectangles (one at (10, -30), 30 by 10, one at
  (-40, -10), 10 by 40) is 80 wide and 60 high, whatever the container's own matrix;
  under \<open>fit-content\<close> every trigger other than \<open>progress\<close> (at initialization: when
  no explicit width or height was given; for \<open>imperative\<close>: without caller values)
  yields a result with these dimensions, and constructing the container sets its
  width to 80 and its height to 60.
\<close>

theorem fit_content_two_rects:
  "map_option (\<lambda>b. (bb_width b, bb_height b))
      (getObjectsBoundingBox own [rect 10 (-30) 30 10, rect (-40) (-10) 10 40] ignoreOffset) = Some (80, 60)
   \<and> (c_type ctx \<noteq> Progress
       \<and> (c_type ctx = Initialization \<longrightarrow>
             (case c_options ctx of None \<Rightarrow> True
              | Some opts \<Rightarrow> opt_width opts = None \<and> opt_height opts = None))
       \<and> (c_type ctx = Imperative \<longrightarrow> c_context ctx = None)
      \<longrightarrow> (\<exists>r. getLayoutStrategyResult om this ''fit-content''
                   [rect 10 (-30) 30 10, rect (-40) (-10) 10 40] ctx = Some r
               \<and> r_width r = Some 80 \<and> r_height r = Some 60))
   \<and> (case applyLayoutStrategy centeredMethods (scenario1\<lparr>firstLayoutDone := False\<rparr>) (trigger Initialization) of
         Returned g fwd \<Rightarrow> width g = 80 \<and> height g = 60 \<and> firstLayoutDone g
       | NonNumeric \<Rightarrow> False)"
proof (intro conjI impI)
  show "map_option (\<lambda>b. (bb_width b, bb_height b))
      (getObjectsBoundingBox own [rect 10 (-30) 30 10, rect (-40) (-10) 10 40] ignoreOffset) = Some (80, 60)"
    unfolding scenario1_bbox by (simp add: makeBBox_size)
next
  assume a: "c_type ctx \<noteq> Progress
       \<and> (c_type ctx = Initialization \<longrightarrow>
             (case c_options ctx of None \<Rightarrow> True
              | Some opts \<Rightarrow> opt_width opts = None \<and> opt_height opts = None))
       \<and> (c_type ctx = Imperative \<longrightarrow> c_context ctx = None)"
  then have "getLayoutStrategyResult om this ''fit-content'' [rect 10 (-30) 30 10, rect (-40) (-10) 10 40] ctx
     = prepareBoundingBox om this ''fit-content'' [rect 10 (-30) 30 10, rect (-40) (-10) 10 40] ctx"
    by (simp add: getLayoutStrategyResult_def)
  then show "\<exists>r. getLayoutStrategyResult om this ''fit-content''
                   [rect 10 (-30) 30 10, rect (-40) (-10) 10 40] ctx = Some r
               \<and> r_width r = Some 80 \<and> r_height r = Some 60"
    using a two_rects_prepare [of ctx om this "''fit-content''"] by simp
next
  have l: "layout (scenario1\<lparr>firstLayoutDone := False\<rparr>) = ''fit-content''"
    and ob: "objects (scenario1\<lparr>firstLayoutDone := False\<rparr>) = [rect 10 (-30) 30 10, rect (-40) (-10) 10 40]"
    by (simp_all add: scenario1_def)
  have r: "getLayoutStrategyResult centeredMethods (scenario1\<lparr>firstLayoutDone := False\<rparr>) ''fit-content''
      [rect 10 (-30) 30 10, rect (-40) (-10) 10 40] (trigger Initialization)
    = Some \<lparr>r_centerX = Some (-40), r_centerY = Some (-30), r_correctionX = Some (-40),
            r_correctionY = Some (-30), r_width = Some 80, r_height = Some 60,
            r_offsetX = None, r_offsetY = None\<rparr>"
    unfolding getLayoutStrategyResult_def prepareBoundingBox_def prepareInitialBoundingBox_def scenario1_bbox
    by (simp add: trigger_def centeredMethods_def scenario1_def Let_def makeBBox_size
          makeBBox_center_identity p_add_def)
  show "case applyLayoutStrategy centeredMethods (scenario1\<lparr>firstLayoutDone := False\<rparr>) (trigger Initialization) of
         Returned g fwd \<Rightarrow> width g = 80 \<and> height g = 60 \<and> firstLayoutDone g
       | NonNumeric \<Rightarrow> False"
    unfolding applyLayoutStrategy_def l ob r
    by (simp add: trigger_def scenario1_def applyResult_def Let_def centeredMethods_def
          setInitialTransform_def invertTransform_def transformPoint_def
          orZero_def p_add_def p_subtract_def rect_def)
qed

theorem fit_content_two_rects_witness:
  "map_option (\<lambda>b. (bb_width b, bb_height b))
      (getObjectsBoundingBox iMatrix [rect 10 (-30) 30 10, rect (-40) (-10) 10 40] False) = Some (80, 60)
   \<and> (\<exists>r. getLayoutStrategyResult centeredMethods scenario1 ''fit-content''
                   [rect 10 (-30) 30 10, rect (-40) (-10) 10 40] (trigger Added) = Some r
               \<and> r_width r = Some 80 \<and> r_height r = Some 60)"
  using fit_content_two_rects [of iMatrix False "trigger Added" centeredMethods scenario1]
  by (simp add: trigger_def)

text \<open>
  Claim C7 (amended). Under \<open>fixed\<close>, \<open>getLayoutStrategyResult\<close> returns no result for
  any trigger other than \<open>initialization\<close> and \<open>imperative\<close>. At initialization with
  explicit left, top, width and height: when the children are given relative to the
  group (\<open>objectsRelativeToGroup\<close>) the calculation is skipped, no result is returned
  and the layout pass leaves position, size and children as they are; when they are
  not, and there are children, a result is returned whose width and height are the
  container's explicit width and height.
\<close>

theorem fixed_layout:
  "(c_type ctx \<noteq> Initialization \<and> c_type ctx \<noteq> Imperative
      \<longrightarrow> getLayoutStrategyResult om this ''fixed'' objs ctx = None)
   \<and> (c_type ctx = Initialization \<and> hasExplicitBox ctx \<and> c_objectsRelativeToGroup ctx
      \<longrightarrow> getLayoutStrategyResult om this ''fixed'' objs ctx = None
          \<and> (layout this = ''fixed'' \<longrightarrow>
               (\<exists>g fwd. applyLayoutStrategy om this ctx = Returned g fwd
                  \<and> width g = width this \<and> height g = height this
                  \<and> left g = left this \<and> top' g = top' this \<and> objects g = objects this)))
   \<and> (c_type ctx = Initialization \<and> hasExplicitBox ctx \<and> \<not> c_objectsRelativeToGroup ctx
        \<and> objs \<noteq> []
      \<longrightarrow> (\<exists>r. getLayoutStrategyResult om this ''fixed'' objs ctx = Some r
             \<and> r_width r = Some (width this) \<and> r_height r = Some (height this)))"
proof (intro conjI impI)
  assume "c_type ctx \<noteq> Initialization \<and> c_type ctx \<noteq> Imperative"
  then show "getLayoutStrategyResult om this ''fixed'' objs ctx = None"
    by (simp add: getLayoutStrategyResult_def)
next
  assume a: "c_type ctx = Initialization \<and> hasExplicitBox ctx \<and> c_objectsRelativeToGroup ctx"
  then show "getLayoutStrategyResult om this ''fixed'' objs ctx = None"
    by (simp add: getLayoutStrategyResult_def prepareBoundingBox_def initial_skipped)
next
  assume a: "c_type ctx = Initialization \<and> hasExplicitBox ctx \<and> c_objectsRelativeToGroup ctx"
    and l: "layout this = ''fixed''"
  have r: "getLayoutStrategyResult om this ''fixed'' (objects this) ctx = None"
    using a by (simp add: getLayoutStrategyResult_def prepareBoundingBox_def initial_skipped)
  obtain opts where o: "c_options ctx = Some opts"
    using a by (auto simp add: hasExplicitBox_def split: option.splits)
  show "\<exists>g fwd. applyLayoutStrategy om this ctx = Returned g fwd
                  \<and> width g = width this \<and> height g = height this
                  \<and> left g = left this \<and> top' g = top' this \<and> objects g = objects this"
    unfolding applyLayoutStrategy_def l r
    using a o by (simp add: setInitialTransform_def Let_def)
next
  assume a: "c_type ctx = Initialization \<and> hasExplicitBox ctx \<and> \<not> c_objectsRelativeToGroup ctx
        \<and> objs \<noteq> []"
  then have "getLayoutStrategyResult om this ''fixed'' objs ctx
      = prepareInitialBoundingBox om this ''fixed'' objs ctx"
    by (simp add: getLayoutStrategyResult_def prepareBoundingBox_def)
  then show "\<exists>r. getLayoutStrategyResult om this ''fixed'' objs ctx = Some r
             \<and> r_width r = Some (width this) \<and> r_height r = Some (height this)"
    using a initial_not_skipped [of ctx objs om this "''fixed''"] by simp
qed

theorem fixed_layout_witness:
  "getLayoutStrategyResult centeredMethods fixedGroup ''fixed'' (objects fixedGroup) (trigger Added) = None
   \<and> getLayoutStrategyResult centeredMethods fixedGroup ''fixed'' (objects fixedGroup)
        ((trigger Initialization)\<lparr>c_options := Some explicitOptions, c_objectsRelativeToGroup := True\<rparr>) = None
   \<and> (\<exists>r. getLayoutStrategyResult centeredMethods fixedGroup ''fixed'' (objects fixedGroup)
        ((trigger Initialization)\<lparr>c_options := Some explicitOptions\<rparr>) = Some r
         \<and> r_width r = Some 100 \<and> r_height r = Some 100)"
  using fixed_layout [of "trigger Added" centeredMethods fixedGroup "objects fixedGroup"]
        fixed_layout [of "(trigger Initialization)\<lparr>c_options := Some explicitOptions, c_objectsRelativeToGroup := True\<rparr>"
           centeredMethods fixedGroup "objects fixedGroup"]
        fixed_layout [of "(trigger Initialization)\<lparr>c_options := Some explicitOptions\<rparr>"
           centeredMethods fixedGroup "objects fixedGroup"]
  by (simp add: trigger_def hasExplicitBox_def explicitOptions_def fixedGroup_def scenario1_def)

text \<open>
  With all four options given but the children not declared relative to the group,
  the bounding box is computed and a result is returned (with a correction that moves
  the children).
\<close>

theorem fixed_explicit_box_counterexample:
  "c_type ((trigger Initialization)\<lparr>c_options := Some explicitOptions\<rparr>) = Initialization
   \<and> hasExplicitBox ((trigger Initialization)\<lparr>c_options := Some explicitOptions\<rparr>)
   \<and> getLayoutStrategyResult centeredMethods fixedGroup ''fixed'' (objects fixedGroup)
        ((trigger Initialization)\<lparr>c_options := Some explicitOptions\<rparr>)
      = Some \<lparr>r_centerX = Some 0, r_centerY = Some 0, r_correctionX = Some (-10),
              r_correctionY = Some (-20), r_width = Some 100, r_height = Some 100,
              r_offsetX = None, r_offsetY = None\<rparr>"
proof -
  have ob: "objects fixedGroup = [rect 10 (-30) 30 10, rect (-40) (-10) 10 40]"
    by (simp add: fixedGroup_def scenario1_def)
  show ?thesis
    unfolding ob getLayoutStrategyResult_def prepareBoundingBox_def prepareInitialBoundingBox_def scenario1_bbox
    by (simp add: trigger_def hasExplicitBox_def explicitOptions_def fixedGroup_def scenario1_def
          centeredMethods_def Let_def makeBBox_size makeBBox_center_identity p_add_def)
qed


section \<open>The lazy strategy against the full computation\<close>

text \<open>
  Claim C8 does not hold of the code. The lazy strategy (a "performance
  enhancement" that is to "calculate added objects' bbox with existing bbox", in the
  words of its comments) hands \<open>context.targets.concat(this)\<close> to
  \<open>getObjectsBoundingBox\<close>, which reads the centre of every element with
  \<open>getRelativeCenterPoint()\<close>: for the targets that is a point of the group's
  plane, for the group itself a point of the plane of the group's parent. A full
  layout leaves \<open>builtLazyGroup\<close> as it is (first conjunct); once the second
  rectangle is added, the lazy strategy returns a box 105 wide, and the
  \<open>fit-content\<close> strategy, on the same children and context, a box 25 wide, the span
  from -5 to 20 of the two rectangles.
\<close>

theorem lazy_plane_mismatch:
  "applyLayoutStrategy centeredMethods builtLazyGroup (trigger ObjectModified)
     = Returned builtLazyGroup None
   \<and> c_type (addedContext [rect 0 0 20 20]) = Added
   \<and> length (objects grownLazyGroup) > length (c_targets (addedContext [rect 0 0 20 20]))
   \<and> map_option r_width (getLayoutStrategyResult centeredMethods grownLazyGroup ''fit-content-lazy''
        (objects grownLazyGroup) (addedContext [rect 0 0 20 20])) = Some (Some 105)
   \<and> map_option r_width (getLayoutStrategyResult centeredMethods grownLazyGroup ''fit-content''
        (objects grownLazyGroup) (addedContext [rect 0 0 20 20])) = Some (Some 25)"
proof -
  have box: "getObjectsBoundingBox own [rect (-5) (-5) 10 10] io
      = Some (makeBBox own io (False, (-5, -5), (5, 5)))" for own io
    by (simp add: rect_def accumulate_def getRelativeCenterPoint_def rotateSizeVector_def
          scalarDivide_def p_add_def p_subtract_def Let_def)
  have res: "getLayoutStrategyResult centeredMethods builtLazyGroup ''fit-content-lazy''
       [rect (-5) (-5) 10 10] (trigger ObjectModified)
     = Some (bboxResult (makeBBox (1, 0, 0, 1, 100, 100) False (False, (-5, -5), (5, 5))))"
    unfolding getLayoutStrategyResult_def prepareBoundingBox_def box
    by (simp add: trigger_def centeredMethods_def builtLazyGroup_def scenario1_def)
  have l: "layout builtLazyGroup = ''fit-content-lazy''"
    and ob: "objects builtLazyGroup = [rect (-5) (-5) 10 10]"
    by (simp_all add: builtLazyGroup_def scenario1_def)
  have fixed: "applyLayoutStrategy centeredMethods builtLazyGroup (trigger ObjectModified)
      = Returned builtLazyGroup None"
    unfolding applyLayoutStrategy_def l ob res
    by (simp add: trigger_def builtLazyGroup_def scenario1_def bboxResult_def makeBBox_size
          makeBBox_center_identity applyResult_def Let_def centeredMethods_def invertTransform_def
          transformPoint_def orZero_def p_add_def p_subtract_def rect_def bubbleLayout_def)
  have rest: "c_type (addedContext [rect 0 0 20 20]) = Added
   \<and> length (objects grownLazyGroup) > length (c_targets (addedContext [rect 0 0 20 20]))
   \<and> map_option r_width (getLayoutStrategyResult centeredMethods grownLazyGroup ''fit-content-lazy''
        (objects grownLazyGroup) (addedContext [rect 0 0 20 20])) = Some (Some 105)
   \<and> map_option r_width (getLayoutStrategyResult centeredMethods grownLazyGroup ''fit-content''
        (objects grownLazyGroup) (addedContext [rect 0 0 20 20])) = Some (Some 25)"
    by (simp add: getLayoutStrategyResult_def prepareBoundingBox_def addedContext_def trigger_def
          grownLazyGroup_def builtLazyGroup_def scenario1_def asObject_def centeredMethods_def
          bboxResult_def makeBBox_size rect_def accumulate_def getRelativeCenterPoint_def
          rotateSizeVector_def scalarDivide_def p_add_def p_subtract_def Let_def)
  show ?thesis using fixed rest by simp
qed

section \<open>Properties of entering and leaving a group\<close>

lemma sameButCanvas_refl: "sameButCanvas s s"
  by (simp add: sameButCanvas_def)

lemma sameButCanvas_step:
  "sameButCanvas (s(obj := (s obj)\<lparr>s_canvas := v\<rparr>)) s' \<Longrightarrow> sameButCanvas s s'"
  unfolding sameButCanvas_def
proof
  fix i
  assume a: "\<forall>i. s' i = ((s(obj := (s obj)\<lparr>s_canvas := v\<rparr>)) i)\<lparr>s_canvas := s_canvas (s' i)\<rparr>"
  show "s' i = (s i)\<lparr>s_canvas := s_canvas (s' i)\<rparr>"
    using a [rule_format, of i] by (cases "i = obj") simp_all
qed

lemma setCanvasAll_frame:
  assumes "setCanvasAll s todo v = Some s'"
  shows "sameButCanvas s s'"
proof (rule setCanvasAll.raw_induct [where P = "\<lambda>s todo v s'. sameButCanvas s s'", OF _ assms])
  fix f s todo v s'
  assume IH: "\<And>s todo v s'. f s todo v = Some s' \<Longrightarrow> sameButCanvas s s'"
    and body: "(case todo of [] \<Rightarrow> Some s
      | obj # rest \<Rightarrow>
          let prev = s_canvas (s obj); s1 = s(obj := s obj\<lparr>s_canvas := v\<rparr>)
          in if prev \<noteq> v then f s1 (s_objects (s1 obj) @ rest) v
             else f s1 rest v) = Some s'"
  show "sameButCanvas s s'"
  proof (cases todo)
    case Nil
    then show ?thesis using body by (simp add: sameButCanvas_refl)
  next
    case (Cons obj rest)
    then have "\<exists>td. f (s(obj := s obj\<lparr>s_canvas := v\<rparr>)) td v = Some s'"
      using body by (auto simp add: Let_def split: if_splits)
    then show ?thesis
      using IH sameButCanvas_step [of s obj v s'] by blast
  qed
qed

lemma setCanvasAll_terminates:
  "childClosed s A \<Longrightarrow> set todo \<subseteq> A \<Longrightarrow> card {i \<in> A. s_canvas (s i) \<noteq> v} = n
   \<Longrightarrow> \<exists>s'. setCanvasAll s todo v = Some s'"
proof (induction n arbitrary: s todo rule: less_induct)
  case (less n)
  show ?case using less.prems
  proof (induction todo arbitrary: s)
    case Nil
    then show ?case by (subst setCanvasAll.simps) simp
  next
    case (Cons obj rest)
    let ?s1 = "s(obj := (s obj)\<lparr>s_canvas := v\<rparr>)"
    have fin: "finite A" using Cons.prems(1) by (simp add: childClosed_def)
    have objA: "obj \<in> A" and restA: "set rest \<subseteq> A" using Cons.prems(2) by simp_all
    have cl1: "childClosed ?s1 A"
      using Cons.prems(1) by (simp add: childClosed_def)
    have eq: "{i \<in> A. s_canvas (?s1 i) \<noteq> v} = {i \<in> A. s_canvas (s i) \<noteq> v} - {obj}"
      by auto
    show ?case
    proof (cases "s_canvas (s obj) = v")
      case True
      then have same: "{i \<in> A. s_canvas (?s1 i) \<noteq> v} = {i \<in> A. s_canvas (s i) \<noteq> v}"
        using eq by auto
      have c1: "card {i \<in> A. s_canvas (?s1 i) \<noteq> v} = n"
        using Cons.prems(3) by (simp only: same)
      obtain s' where "setCanvasAll ?s1 rest v = Some s'"
        using Cons.IH [OF cl1 restA c1] by blast
      then show ?thesis
        using True by (subst setCanvasAll.simps) (simp add: Let_def)
    next
      case False
      then have "obj \<in> {i \<in> A. s_canvas (s i) \<noteq> v}" using objA by simp
      moreover have "finite {i \<in> A. s_canvas (s i) \<noteq> v}" using fin by simp
      ultimately have "card ({i \<in> A. s_canvas (s i) \<noteq> v} - {obj}) < card {i \<in> A. s_canvas (s i) \<noteq> v}"
        by (rule_tac card_Diff1_less)
      then have lt: "card {i \<in> A. s_canvas (?s1 i) \<noteq> v} < n"
        using Cons.prems(3) by (simp only: eq)
      have "set (s_objects (?s1 obj) @ rest) \<subseteq> A"
        using Cons.prems(1) objA restA by (auto simp add: childClosed_def)
      then obtain s' where "setCanvasAll ?s1 (s_objects (?s1 obj) @ rest) v = Some s'"
        using less.IH [OF lt cl1 _ refl] by blast
      then show ?thesis
        using False by (subst setCanvasAll.simps) (simp add: Let_def)
    qed
  qed
qed

lemma multiply_invert_cancel:
  assumes "determinant t \<noteq> 0"
  shows "\<exists>ti. invertTransform t = Some ti
           \<and> multiplyTransformMatrices t (multiplyTransformMatrices ti w) = w"
proof -
  obtain a b c d e f where t: "t = (a, b, c, d, e, f)" by (cases t) auto
  obtain w0 w1 w2 w3 w4 w5 where w: "w = (w0, w1, w2, w3, w4, w5)" by (cases w) auto
  define k where "k = 1 / (a * d - b * c)"
  have nz: "a * d - b * c \<noteq> 0" using assms by (simp add: t determinant_def)
  then have kD: "k * (a * d - b * c) = 1" by (simp add: k_def)
  have inv: "invertTransform t = Some (k * d, - k * b, - k * c, k * a,
      - (k * d * e + - k * c * f), - (- k * b * e + k * a * f))"
    using nz by (simp add: t invertTransform_def transformPoint_def Let_def k_def)
  have c0: "a * (k * d * x + - k * c * y) + c * (- k * b * x + k * a * y) = x" for x y
    using kD by algebra
  have c1: "b * (k * d * x + - k * c * y) + d * (- k * b * x + k * a * y) = y" for x y
    using kD by algebra
  have c4: "a * (k * d * x + - k * c * y + - (k * d * e + - k * c * f))
          + c * (- k * b * x + k * a * y + - (- k * b * e + k * a * f)) + e = x" for x y
    using kD by algebra
  have c5: "b * (k * d * x + - k * c * y + - (k * d * e + - k * c * f))
          + d * (- k * b * x + k * a * y + - (- k * b * e + k * a * f)) + f = y" for x y
    using kD by algebra
  have "multiplyTransformMatrices t (multiplyTransformMatrices (k * d, - k * b, - k * c, k * a,
      - (k * d * e + - k * c * f), - (- k * b * e + k * a * f)) w) = w"
    unfolding t w multiplyTransformMatrices_def
    by (simp only: prod.case c0 c1 c4 c5)
  then show ?thesis using inv by simp
qed

lemma multiplyMaybe_invert_cancel:
  assumes "determinant t \<noteq> 0"
  shows "multiplyMaybe (Some t) (multiplyMaybe (invertMaybe (Some t)) (Some w)) = Some w"
proof -
  obtain ti where a: "invertTransform t = Some ti"
    and b: "multiplyTransformMatrices t (multiplyTransformMatrices ti w) = w"
    using multiply_invert_cancel [OF assms] by blast
  show ?thesis
    by (simp add: multiplyMaybe_def invertMaybe_def a b)
qed

lemma ancestorLoop_Some:
  "ancestorLoop s target (Some p) = Some False
   \<Longrightarrow> target \<noteq> p \<and> ancestorLoop s target (s_group (s p)) = Some False"
  by (subst (asm) ancestorLoop.simps) (simp split: if_splits)

lemma calcTransformMatrix_frame:
  assumes c: "calcTransformMatrix s this = Some m"
      and same: "\<And>i. i \<noteq> obj \<Longrightarrow> s_group (s' i) = s_group (s i) \<and> s_ownMatrix (s' i) = s_ownMatrix (s i)"
      and ne: "this \<noteq> obj" and nd: "isDescendantOf s this obj = Some False"
  shows "calcTransformMatrix s' this = Some m"
proof -
  have "s = s \<longrightarrow> this \<noteq> obj \<longrightarrow> isDescendantOf s this obj = Some False
                  \<longrightarrow> calcTransformMatrix s' this = Some m"
  proof (rule calcTransformMatrix.raw_induct
    [where P = "\<lambda>s0 i m. s0 = s \<longrightarrow> i \<noteq> obj \<longrightarrow> isDescendantOf s i obj = Some False
                  \<longrightarrow> calcTransformMatrix s' i = Some m", OF _ c])
  fix f s0 i m
  assume IH: "\<And>s0 i m. f s0 i = Some m \<Longrightarrow>
            s0 = s \<longrightarrow> i \<noteq> obj \<longrightarrow> isDescendantOf s i obj = Some False
              \<longrightarrow> calcTransformMatrix s' i = Some m"
    and body: "(case s_group (s0 i) of None \<Rightarrow> Some (s_ownMatrix (s0 i))
        | Some p \<Rightarrow> Option.bind (f s0 p)
            (\<lambda>m. Some (multiplyMaybe m (s_ownMatrix (s0 i))))) = Some m"
  show "s0 = s \<longrightarrow> i \<noteq> obj \<longrightarrow> isDescendantOf s i obj = Some False
              \<longrightarrow> calcTransformMatrix s' i = Some m"
  proof (intro impI)
    assume e: "s0 = s" and ne: "i \<noteq> obj" and d: "isDescendantOf s i obj = Some False"
    show "calcTransformMatrix s' i = Some m"
    proof (cases "s_group (s i)")
      case None
      then show ?thesis
        using body e same [OF ne] by (subst calcTransformMatrix.simps) simp
    next
      case (Some p)
      then obtain m' where fp: "f s p = Some m'"
        and m: "m = multiplyMaybe m' (s_ownMatrix (s i))"
        using body e by (auto simp add: bind_eq_Some_conv)
      have "obj \<noteq> p \<and> ancestorLoop s obj (s_group (s p)) = Some False"
        using d Some ancestorLoop_Some [of s obj p] by (simp add: isDescendantOf_def)
      then have "calcTransformMatrix s' p = Some m'"
        using IH [OF fp] by (simp add: isDescendantOf_def)
      then show ?thesis
        using Some m same [OF ne] by (subst calcTransformMatrix.simps) simp
    qed
  qed
  qed
  then show ?thesis using ne nd by simp
qed

lemma calcTransformMatrix_root:
  "s_group (s i) = None \<Longrightarrow> calcTransformMatrix s i = Some (s_ownMatrix (s i))"
  by (subst calcTransformMatrix.simps) simp

lemma calcTransformMatrix_child:
  "s_group (s i) = Some p \<Longrightarrow> calcTransformMatrix s p = Some m
   \<Longrightarrow> calcTransformMatrix s i = Some (multiplyMaybe m (s_ownMatrix (s i)))"
  by (subst calcTransformMatrix.simps) simp

lemma sameButCanvas_fields:
  "sameButCanvas s s' \<Longrightarrow>
     s_group (s' i) = s_group (s i) \<and> s_ownMatrix (s' i) = s_ownMatrix (s i)
     \<and> s_objects (s' i) = s_objects (s i) \<and> s_activeObjects (s' i) = s_activeObjects (s i)
     \<and> s_dirty (s' i) = s_dirty (s i)"
  unfolding sameButCanvas_def
  by (metis sobject.select_convs(1,2,4,5,6) sobject.surjective sobject.update_convs(3))

lemma calcTransformMatrix_rooted:
  assumes "calcTransformMatrix s i = Some m"
  shows "rooted s i"
proof (rule calcTransformMatrix.raw_induct [where P = "\<lambda>s i m. rooted s i", OF _ assms])
  fix f s i m
  assume IH: "\<And>s i m. f s i = Some m \<Longrightarrow> rooted s i"
    and body: "(case s_group (s i) of None \<Rightarrow> Some (s_ownMatrix (s i))
        | Some p \<Rightarrow> Option.bind (f s p)
            (\<lambda>m. Some (multiplyMaybe m (s_ownMatrix (s i))))) = Some m"
  show "rooted s i"
  proof (cases "s_group (s i)")
    case None
    then show ?thesis by (rule rooted.root)
  next
    case (Some p)
    then obtain m' where "f s p = Some m'"
      using body by (auto simp add: bind_eq_Some_conv)
    then show ?thesis using IH Some rooted.child by blast
  qed
qed

lemma rooted_calcTransformMatrix:
  "rooted s i \<Longrightarrow> \<exists>m. calcTransformMatrix s i = Some m"
proof (induction rule: rooted.induct)
  case (root s i)
  then show ?case using calcTransformMatrix_root by blast
next
  case (child s i p)
  then show ?case using calcTransformMatrix_child by blast
qed

lemma rooted_ancestorLoop:
  "rooted s i \<Longrightarrow> \<exists>b. ancestorLoop s target (s_group (s i)) = Some b"
proof (induction rule: rooted.induct)
  case (root s i)
  then show ?case by (subst ancestorLoop.simps) auto
next
  case (child s i p)
  then show ?case by (subst ancestorLoop.simps) auto
qed

lemma ancestorLoop_rooted:
  assumes "ancestorLoop s target parent = Some b"
  shows "\<forall>i. s_group (s i) = parent \<longrightarrow> rooted s i \<or> b"
proof (rule ancestorLoop.raw_induct
    [where P = "\<lambda>s target parent b. \<forall>i. s_group (s i) = parent \<longrightarrow> rooted s i \<or> b", OF _ assms])
  fix f s target parent b
  assume IH: "\<And>s target parent b. f s target parent = Some b
                \<Longrightarrow> \<forall>i. s_group (s i) = parent \<longrightarrow> rooted s i \<or> b"
    and body: "(case parent of None \<Rightarrow> Some False
        | Some p \<Rightarrow> if target = p then Some True else f s target (s_group (s p))) = Some b"
  show "\<forall>i. s_group (s i) = parent \<longrightarrow> rooted s i \<or> b"
  proof (intro allI impI)
    fix i
    assume g: "s_group (s i) = parent"
    show "rooted s i \<or> b"
    proof (cases parent)
      case None
      then show ?thesis using g rooted.root by simp
    next
      case (Some p)
      show ?thesis
      proof (cases "target = p")
        case True
        then show ?thesis using body Some by simp
      next
        case False
        then have "f s target (s_group (s p)) = Some b" using body Some by simp
        then have "rooted s p \<or> b" using IH by blast
        then show ?thesis using g Some rooted.child by blast
      qed
    qed
  qed
qed

lemma not_descendant_rooted:
  "isDescendantOf s i target = Some False \<Longrightarrow> rooted s i"
  using ancestorLoop_rooted [of s target "s_group (s i)" False] by (simp add: isDescendantOf_def)

lemma rooted_cut:
  "rooted s i \<Longrightarrow> (\<And>j. s_group (s' j) = s_group (s j) \<or> s_group (s' j) = None) \<Longrightarrow> rooted s' i"
proof (induction rule: rooted.induct)
  case (root s i)
  then show ?case by (metis rooted.root)
next
  case (child s i p)
  then show ?case by (metis rooted.root rooted.child)
qed

lemma rooted_frame:
  assumes "isDescendantOf s i obj = Some False" and "i \<noteq> obj"
      and same: "\<And>j. j \<noteq> obj \<Longrightarrow> s_group (s' j) = s_group (s j)"
  shows "rooted s' i"
proof -
  obtain m where "calcTransformMatrix s i = Some m"
    using not_descendant_rooted [OF assms(1)] rooted_calcTransformMatrix by blast
  then have "calcTransformMatrix (\<lambda>j. if j = obj then s' j else (s' j)\<lparr>s_ownMatrix := s_ownMatrix (s j)\<rparr>) i = Some m"
    using assms by (rule_tac calcTransformMatrix_frame [where s = s and obj = obj]) (simp_all add: same)
  then have "rooted (\<lambda>j. if j = obj then s' j else (s' j)\<lparr>s_ownMatrix := s_ownMatrix (s j)\<rparr>) i"
    by (rule calcTransformMatrix_rooted)
  then show ?thesis
    by (rule rooted_cut) simp
qed

lemma sameTree_refl: "sameTree s s"
  by (simp add: sameTree_def)

lemma sameTree_trans: "sameTree a b \<Longrightarrow> sameTree b c \<Longrightarrow> sameTree a c"
  by (simp add: sameTree_def)

lemma sameButCanvas_sameTree: "sameButCanvas s s' \<Longrightarrow> sameTree s s'"
  using sameButCanvas_fields by (simp add: sameTree_def)

lemma sameTree_childClosed: "sameTree s s' \<Longrightarrow> childClosed s A \<Longrightarrow> childClosed s' A"
  by (simp add: sameTree_def childClosed_def)

lemma sameTree_rooted: "sameTree s s' \<Longrightarrow> rooted s i \<Longrightarrow> rooted s' i"
  using rooted_cut [of s i s'] by (simp add: sameTree_def)

lemma exitGroup'_ok:
  assumes "rooted (s(obj := (s obj)\<lparr>s_group := None\<rparr>)) this"
  shows "\<exists>s'. exitGroup' s this obj False = Some s'
            \<and> sameTree (s(obj := (s obj)\<lparr>s_group := None\<rparr>)) s'"
proof -
  let ?s1 = "s(obj := (s obj)\<lparr>s_group := None\<rparr>)"
  obtain tm where tm: "calcTransformMatrix ?s1 this = Some tm"
    using assms rooted_calcTransformMatrix by blast
  have om: "calcTransformMatrix ?s1 obj = Some (s_ownMatrix (?s1 obj))"
    by (rule calcTransformMatrix_root) simp
  show ?thesis
    by (simp add: exitGroup'_def Let_def tm om applyTransformToObject_def sameTree_def)
qed

lemma exitGroup_ok:
  assumes "rooted (s(obj := (s obj)\<lparr>s_group := None\<rparr>)) this"
      and "childClosed s A" and "obj \<in> A"
  shows "\<exists>s'. exitGroup s this obj False = Some s'
            \<and> sameTree (s(obj := (s obj)\<lparr>s_group := None\<rparr>)) s'"
proof -
  let ?s1 = "s(obj := (s obj)\<lparr>s_group := None\<rparr>)"
  obtain s2 where e: "exitGroup' s this obj False = Some s2" and t2: "sameTree ?s1 s2"
    using exitGroup'_ok [OF assms(1)] by blast
  have "childClosed ?s1 A" using assms(2) by (simp add: childClosed_def)
  then have "childClosed s2 A" using t2 sameTree_childClosed by blast
  then obtain s3 where c: "setCanvasAll s2 [obj] None = Some s3"
    using setCanvasAll_terminates [of s2 A "[obj]"] assms(3) by auto
  have "sameTree s2 s3"
    using setCanvasAll_frame [OF c] by (rule sameButCanvas_sameTree)
  then show ?thesis
    using e c t2 sameTree_trans by (auto simp add: exitGroup_def)
qed

lemma enterGroup'_ok:
  assumes "removeParentTransform \<longrightarrow> rooted s this \<and> rooted s obj"
      and "childClosed s A" and "obj \<in> A"
  shows "\<exists>s'. enterGroup' s this obj removeParentTransform = Some s'
            \<and> sameTree (s(obj := (s obj)\<lparr>s_group := Some this\<rparr>)) s'"
proof -
  obtain s1 where s1: "(if removeParentTransform
        then Option.bind (calcTransformMatrix s this) (\<lambda>tm.
             Option.bind (calcTransformMatrix s obj) (\<lambda>om.
               Some (applyTransformToObject s obj
                       (multiplyMaybe (invertMaybe tm) om))))
        else Some s) = Some s1"
    and t1: "sameTree s s1"
  proof (cases removeParentTransform)
    case True
    then obtain tm om where "calcTransformMatrix s this = Some tm" "calcTransformMatrix s obj = Some om"
      using assms(1) rooted_calcTransformMatrix by blast
    then show ?thesis using that True by (simp add: applyTransformToObject_def sameTree_def)
  next
    case False
    then show ?thesis using that by (simp add: sameTree_refl)
  qed
  let ?s2 = "s1(obj := (s1 obj)\<lparr>s_group := Some this\<rparr>)"
  have t2: "sameTree (s(obj := (s obj)\<lparr>s_group := Some this\<rparr>)) ?s2"
    using t1 by (simp add: sameTree_def)
  have "childClosed ?s2 A"
    using assms(2) t1 by (simp add: childClosed_def sameTree_def)
  then obtain s3 where c: "setCanvasAll ?s2 [obj] (s_canvas (?s2 this)) = Some s3"
    using setCanvasAll_terminates [of ?s2 A "[obj]"] assms(3) by auto
  have "sameTree ?s2 s3"
    using setCanvasAll_frame [OF c] by (rule sameButCanvas_sameTree)
  then have "sameTree (s(obj := (s obj)\<lparr>s_group := Some this\<rparr>)) s3"
    using t2 sameTree_trans by blast
  moreover have "enterGroup' s this obj removeParentTransform = Some s3"
    unfolding enterGroup'_def s1 using c by (simp add: Let_def)
  ultimately show ?thesis by blast
qed

lemma sameButGeometry_refl: "sameButGeometry s s"
  by (simp add: sameButGeometry_def)

lemma sameButGeometry_trans: "sameButGeometry a b \<Longrightarrow> sameButGeometry b c \<Longrightarrow> sameButGeometry a c"
  by (simp add: sameButGeometry_def)

lemma sameButGeometry_sameTree: "sameButGeometry s s' \<Longrightarrow> sameTree s s'"
  by (simp add: sameButGeometry_def sameTree_def)

lemma moveObject_frame: "sameButGeometry s (moveObject s obj v)"
  by (simp add: sameButGeometry_def moveObject_def)

lemma moveObjects_frame: "sameButGeometry s (moveObjects s xs)"
proof (induction xs arbitrary: s)
  case Nil
  then show ?case by (simp add: sameButGeometry_refl)
next
  case (Cons x xs)
  obtain obj b a where x: "x = (obj, b, a)" by (metis prod_cases3)
  have "sameButGeometry s (moveObject s obj (o_left a - o_left b, o_top a - o_top b))"
    by (rule moveObject_frame)
  moreover have "sameButGeometry (moveObject s obj (o_left a - o_left b, o_top a - o_top b))
      (moveObjects (moveObject s obj (o_left a - o_left b, o_top a - o_top b)) xs)"
    by (rule Cons.IH)
  ultimately show ?case
    using x sameButGeometry_trans by auto
qed

lemma writeBack_frame: "sameButGeometry s (writeBack om s this g g')"
proof -
  let ?s1 = "s(this := (s this)\<lparr>s_self := g'\<lparr>objects := [], group' := None\<rparr>,
                            s_ownMatrix := translateStored (s_ownMatrix (s this))
                               (p_subtract (m_getRelativeCenterPoint om g')
                                           (m_getRelativeCenterPoint om g))\<rparr>)"
  have "sameButGeometry s ?s1" by (simp add: sameButGeometry_def)
  moreover have "sameButGeometry ?s1 (writeBack om s this g g')"
    unfolding writeBack_def by (rule moveObjects_frame)
  ultimately show ?thesis by (rule sameButGeometry_trans)
qed

lemma ancestorView_rooted: "rooted s i \<Longrightarrow> \<exists>a. ancestorView om s i = Some a"
proof (induction rule: rooted.induct)
  case (root s i)
  then show ?case by (subst ancestorView.simps) simp
next
  case (child s i p)
  then obtain a where "ancestorView om s p = Some a" by blast
  then show ?case using child.hyps by (subst ancestorView.simps) simp
qed

lemma groupView_rooted: "rooted s i \<Longrightarrow> \<exists>g. groupView om s i = Some g"
proof (cases "s_group (s i)")
  case None
  then show ?thesis by (simp add: groupView_def)
next
  case (Some p)
  assume "rooted s i"
  then have "rooted s p" using Some by (cases rule: rooted.cases) simp_all
  then obtain a where "ancestorView om s p = Some a"
    using ancestorView_rooted by blast
  then show ?thesis using Some by (simp add: groupView_def)
qed

lemma applyLayoutStrategyAt_steps:
  assumes "rooted s0 this"
  shows "\<forall>s ctx. (\<forall>j. s_group (s j) = s_group (s0 j))
           \<longrightarrow> (\<exists>s' fin. applyLayoutStrategyAt om s this ctx = Some (s', fin) \<and> sameButGeometry s s')"
  using assms
proof (induction rule: rooted.induct)
  case (root s0 i)
  show ?case
  proof (intro allI impI)
    fix s :: scene and ctx
    assume same: "\<forall>j. s_group (s j) = s_group (s0 j)"
    have g: "s_group (s i) = None" using same root by simp
    then have "rooted s i" by (rule rooted.root)
    then obtain v where v: "groupView om s i = Some v"
      using groupView_rooted by blast
    show "\<exists>s' fin. applyLayoutStrategyAt om s i ctx = Some (s', fin) \<and> sameButGeometry s s'"
    proof (cases "applyLayoutStrategy om v ctx")
      case NonNumeric
      then have "applyLayoutStrategyAt om s i ctx = Some (s, False)"
        using v by (subst applyLayoutStrategyAt.simps) simp
      then show ?thesis using sameButGeometry_refl by blast
    next
      case (Returned g' fwd)
      have fr: "sameButGeometry s (writeBack om s i v g')" by (rule writeBack_frame)
      then have "s_group (writeBack om s i v g' i) = None"
        using g by (simp add: sameButGeometry_def)
      then have "applyLayoutStrategyAt om s i ctx = Some (writeBack om s i v g', True)"
        using v Returned by (subst applyLayoutStrategyAt.simps) (simp add: Let_def split: option.splits)
      then show ?thesis using fr by blast
    qed
  qed
next
  case (child s0 i p)
  show ?case
  proof (intro allI impI)
    fix s :: scene and ctx
    assume same: "\<forall>j. s_group (s j) = s_group (s0 j)"
    have g: "s_group (s i) = Some p" using same child.hyps by simp
    have "rooted s p"
      using child.hyps(2) by (rule rooted_cut) (simp add: same)
    then have "rooted s i" using g rooted.child by blast
    then obtain v where v: "groupView om s i = Some v"
      using groupView_rooted by blast
    show "\<exists>s' fin. applyLayoutStrategyAt om s i ctx = Some (s', fin) \<and> sameButGeometry s s'"
    proof (cases "applyLayoutStrategy om v ctx")
      case NonNumeric
      then have "applyLayoutStrategyAt om s i ctx = Some (s, False)"
        using v by (subst applyLayoutStrategyAt.simps) simp
      then show ?thesis using sameButGeometry_refl by blast
    next
      case (Returned g' fwd)
      let ?s1 = "writeBack om s i v g'"
      have fr: "sameButGeometry s ?s1" by (rule writeBack_frame)
      then have g1: "s_group (?s1 i) = Some p"
        using g by (simp add: sameButGeometry_def)
      show ?thesis
      proof (cases fwd)
        case None
        then have "applyLayoutStrategyAt om s i ctx = Some (?s1, True)"
          using v Returned by (subst applyLayoutStrategyAt.simps) (simp add: Let_def)
        then show ?thesis using fr by blast
      next
        case (Some ctx')
        have "\<forall>j. s_group (?s1 j) = s_group (s0 j)"
          using fr same by (simp add: sameButGeometry_def)
        then obtain s' fin where up: "applyLayoutStrategyAt om ?s1 p ctx' = Some (s', fin)"
          and fr': "sameButGeometry ?s1 s'"
          using child.IH by blast
        have "applyLayoutStrategyAt om s i ctx = Some (s', fin)"
          using v Returned Some g1 up by (subst applyLayoutStrategyAt.simps) (simp add: Let_def)
        then show ?thesis using fr fr' sameButGeometry_trans by blast
      qed
    qed
  qed
qed

lemma applyLayoutStrategyAt_ok:
  assumes "rooted s this"
  shows "\<exists>s' fin. applyLayoutStrategyAt om s this ctx = Some (s', fin) \<and> sameButGeometry s s'"
  using applyLayoutStrategyAt_steps [OF assms, of om] by blast

lemma onAfterObjectsChange_ok:
  assumes "rooted s this"
  shows "\<exists>s' fin. onAfterObjectsChange om s this t targets = Some (s', fin) \<and> sameTree s s'"
proof -
  obtain s1 fin where l: "applyLayoutStrategyAt om s this
          \<lparr>c_type = t, c_options = None, c_objectsRelativeToGroup = False,
           c_targets = map (objectView om s this) targets, c_context = None, c_path = None\<rparr>
        = Some (s1, fin)"
    and fr: "sameButGeometry s s1"
    using applyLayoutStrategyAt_ok [OF assms] by blast
  have "sameTree s (s1(this := (s1 this)\<lparr>s_dirty := True\<rparr>))"
    using fr by (simp add: sameButGeometry_def sameTree_def)
  then show ?thesis
    using l by (simp add: onAfterObjectsChange_def)
qed

lemma group_remove_ok:
  assumes mem: "obj \<in> set (s_objects (s this))"
      and r: "rooted s this"
      and cl: "childClosed s A" and inA: "obj \<in> A"
  shows "\<exists>s' fin. group_remove om s this obj = Some (s', fin)
            \<and> sameTree ((s(this := (s this)\<lparr>s_objects := remove1 obj (s_objects (s this))\<rparr>))
                         (obj := ((s(this := (s this)\<lparr>s_objects := remove1 obj (s_objects (s this))\<rparr>)) obj)
                                   \<lparr>s_group := None\<rparr>)) s'"
proof -
  let ?s1 = "s(this := (s this)\<lparr>s_objects := remove1 obj (s_objects (s this))\<rparr>)"
  let ?sR = "?s1(obj := (?s1 obj)\<lparr>s_group := None\<rparr>)"
  have rR: "rooted ?sR this"
    using r by (rule rooted_cut) simp
  moreover have "childClosed ?s1 A"
    using cl set_remove1_subset [of obj "s_objects (s this)"]
    by (auto simp add: childClosed_def)
  ultimately obtain s2 where e: "exitGroup ?s1 this obj False = Some s2" and t2: "sameTree ?sR s2"
    using exitGroup_ok [of ?s1 obj this A] inA by blast
  have "rooted s2 this" using t2 rR by (rule sameTree_rooted)
  then obtain s3 fin where l: "onAfterObjectsChange om s2 this Removed [obj] = Some (s3, fin)"
    and t3: "sameTree s2 s3"
    using onAfterObjectsChange_ok by blast
  have "sameTree ?sR s3"
    using t2 t3 sameTree_trans by blast
  moreover have "group_remove om s this obj = Some (s3, fin)"
    using mem e l by (simp add: group_remove_def Let_def)
  ultimately show ?thesis by blast
qed

lemma canEnterGroup_ok:
  "obj \<noteq> this \<Longrightarrow> isDescendantOf s this obj = Some False \<Longrightarrow> s_group (s obj) \<noteq> Some this
   \<Longrightarrow> canEnterGroup s this obj = Some (Inr True)"
  by (simp add: canEnterGroup_def)

lemma group_remove_skip:
  assumes "obj \<notin> set (s_objects (s this))" and "rooted s this"
  shows "\<exists>s' fin. group_remove om s this obj = Some (s', fin) \<and> sameTree s s'"
  using assms onAfterObjectsChange_ok [OF assms(2), of om Removed "[]"]
  by (simp add: group_remove_def)

lemma enterGroup_tail:
  assumes r: "rooted s2 this"
      and ent: "enterGroup' s2 this obj rpt = Some s3"
      and t3: "sameTree (s2(obj := (s2 obj)\<lparr>s_group := Some this\<rparr>)) s3"
      and ne: "obj \<noteq> this"
      and nd: "isDescendantOf s2 this obj = Some False"
  shows "\<exists>s'. (case Option.bind (s_canvas (s3 this)) act of
                 None \<Rightarrow> Some (Inr True, s3, fin)
               | Some activeObject \<Rightarrow>
                   Option.bind (if activeObject = obj then Some True
                                else isDescendantOf s3 obj activeObject) (\<lambda>b.
                     Some (Inr True,
                           if b then s3(this := (s3 this)\<lparr>s_activeObjects := s_activeObjects (s3 this) @ [obj]\<rparr>)
                           else s3,
                           fin))) = Some (Inr True :: groupError + bool, s', fin)
             \<and> sameTree s3 s'"
proof (cases "Option.bind (s_canvas (s3 this)) act")
  case None
  then show ?thesis by (simp add: sameTree_refl)
next
  case (Some a)
  have grp3: "s_group (s3 obj) = Some this"
    using t3 by (simp add: sameTree_def)
  have "rooted s3 this"
  proof (rule rooted_frame [OF nd ne [symmetric]])
    fix j
    assume "j \<noteq> obj"
    then show "s_group (s3 j) = s_group (s2 j)"
      using t3 by (simp add: sameTree_def)
  qed
  then have "rooted s3 obj" using grp3 rooted.child by blast
  then obtain b where "isDescendantOf s3 obj a = Some b"
    using rooted_ancestorLoop [of s3 obj a] by (auto simp add: isDescendantOf_def)
  then have "\<exists>b'. (if a = obj then Some True else isDescendantOf s3 obj a) = Some b'"
    by auto
  then obtain b' where b': "(if a = obj then Some True else isDescendantOf s3 obj a) = Some b'"
    by blast
  show ?thesis
    using Some b' by (cases b') (simp_all add: sameTree_def)
qed

lemma enterGroup_moves:
  assumes ne: "obj \<noteq> this"
      and nd: "isDescendantOf s this obj = Some False"
      and g: "s_group (s obj) = Some p"
      and pne: "p \<noteq> this"
      and w: "calcTransformMatrix s obj = Some w"
      and cl: "childClosed s A" and inA: "obj \<in> A"
  shows "\<exists>s' fin. enterGroup om act s this obj rpt = Some (Inr True, s', fin)
           \<and> s_group (s' obj) = Some this
           \<and> s_objects (s' p) = remove1 obj (s_objects (s p))"
proof -
  have can: "canEnterGroup s this obj = Some (Inr True)"
    using ne nd g pne by (simp add: canEnterGroup_ok)
  have ro: "rooted s obj" using w by (rule calcTransformMatrix_rooted)
  then have rp: "rooted s p" using g by (cases rule: rooted.cases) simp_all
  have "\<exists>s2 fin. group_remove om s p obj = Some (s2, fin)
          \<and> (\<forall>j. j \<noteq> obj \<longrightarrow> s_group (s2 j) = s_group (s j))
          \<and> rooted s2 obj
          \<and> s_objects (s2 p) = remove1 obj (s_objects (s p))
          \<and> childClosed s2 A"
  proof (cases "obj \<in> set (s_objects (s p))")
    case True
    let ?s1 = "s(p := (s p)\<lparr>s_objects := remove1 obj (s_objects (s p))\<rparr>)"
    let ?sR = "?s1(obj := (?s1 obj)\<lparr>s_group := None\<rparr>)"
    obtain s2 fin where rem: "group_remove om s p obj = Some (s2, fin)" and t2: "sameTree ?sR s2"
      using group_remove_ok [of obj s p A om] True rp cl inA by blast
    have "s_group (s2 obj) = None"
      using t2 by (simp add: sameTree_def)
    then have "rooted s2 obj" by (rule rooted.root)
    moreover have "\<forall>j. j \<noteq> obj \<longrightarrow> s_group (s2 j) = s_group (s j)"
      using t2 by (simp add: sameTree_def)
    moreover have "s_objects (s2 p) = remove1 obj (s_objects (s p))"
      using t2 by (simp add: sameTree_def)
    moreover have "childClosed s2 A"
    proof -
      have "childClosed ?sR A"
        using cl set_remove1_subset [of obj "s_objects (s p)"] by (auto simp add: childClosed_def)
      then show ?thesis using t2 sameTree_childClosed by blast
    qed
    ultimately show ?thesis using rem by blast
  next
    case False
    obtain s2 fin where rem: "group_remove om s p obj = Some (s2, fin)" and t2: "sameTree s s2"
      using group_remove_skip [of obj s p om] False rp by blast
    have "rooted s2 obj" using t2 ro by (rule sameTree_rooted)
    moreover have "\<forall>j. j \<noteq> obj \<longrightarrow> s_group (s2 j) = s_group (s j)"
      using t2 by (simp add: sameTree_def)
    moreover have "s_objects (s2 p) = remove1 obj (s_objects (s p))"
      using t2 False by (simp add: sameTree_def remove1_idem)
    moreover have "childClosed s2 A"
      using t2 cl by (rule sameTree_childClosed)
    ultimately show ?thesis using rem by blast
  qed
  then obtain s2 fin where rem: "group_remove om s p obj = Some (s2, fin)"
    and grp2: "\<And>j. j \<noteq> obj \<Longrightarrow> s_group (s2 j) = s_group (s j)"
    and r2obj: "rooted s2 obj"
    and objs2: "s_objects (s2 p) = remove1 obj (s_objects (s p))"
    and cl2: "childClosed s2 A"
    by blast
  have r2this: "rooted s2 this"
    using nd ne [symmetric] grp2 by (rule rooted_frame)
  let ?sE = "s2(obj := (s2 obj)\<lparr>s_group := Some this\<rparr>)"
  obtain s3 where ent: "enterGroup' s2 this obj rpt = Some s3" and t3: "sameTree ?sE s3"
    using enterGroup'_ok [of rpt s2 this obj A] r2this r2obj cl2 inA by blast
  have grp3: "s_group (s3 obj) = Some this"
    using t3 by (simp add: sameTree_def)
  have objs3: "s_objects (s3 p) = remove1 obj (s_objects (s p))"
    using t3 objs2 by (auto simp add: sameTree_def)
  have unfold: "enterGroup om act s this obj rpt =
     (case Option.bind (s_canvas (s3 this)) act of
        None \<Rightarrow> Some (Inr True, s3, fin)
      | Some activeObject \<Rightarrow>
          Option.bind (if activeObject = obj then Some True
                       else isDescendantOf s3 obj activeObject) (\<lambda>b.
            Some (Inr True,
                  if b then s3(this := (s3 this)\<lparr>s_activeObjects := s_activeObjects (s3 this) @ [obj]\<rparr>)
                  else s3,
                  fin)))"
    by (simp add: enterGroup_def can g rem ent)
  show ?thesis
  proof (cases "Option.bind (s_canvas (s3 this)) act")
    case None
    then show ?thesis using unfold grp3 objs3 by simp
  next
    case (Some a)
    have "rooted s3 this"
    proof (rule rooted_frame [OF nd ne [symmetric]])
      fix j
      assume "j \<noteq> obj"
      then show "s_group (s3 j) = s_group (s j)"
        using t3 grp2 by (simp add: sameTree_def)
    qed
    then have "rooted s3 obj" using grp3 rooted.child by blast
    then obtain b where "isDescendantOf s3 obj a = Some b"
      using rooted_ancestorLoop [of s3 obj a] by (auto simp add: isDescendantOf_def)
    then have "\<exists>b'. (if a = obj then Some True else isDescendantOf s3 obj a) = Some b'"
      by auto
    then obtain b' where b': "(if a = obj then Some True else isDescendantOf s3 obj a) = Some b'"
      by blast
    show ?thesis
      using unfold Some b' grp3 objs3 ne pne by (cases b') auto
  qed
qed

lemma enterGroup_free:
  assumes ne: "obj \<noteq> this"
      and nd: "isDescendantOf s this obj = Some False"
      and g: "s_group (s obj) = None"
      and cl: "childClosed s A" and inA: "obj \<in> A"
  shows "\<exists>s'. enterGroup om act s this obj rpt = Some (Inr True, s', True)
           \<and> s_group (s' obj) = Some this
           \<and> s_objects (s' this) = s_objects (s this)"
proof -
  have can: "canEnterGroup s this obj = Some (Inr True)"
    using ne nd g by (simp add: canEnterGroup_ok)
  have ro: "rooted s obj" using g by (rule rooted.root)
  have rt: "rooted s this" using nd by (rule not_descendant_rooted)
  let ?sE = "s(obj := (s obj)\<lparr>s_group := Some this\<rparr>)"
  obtain s3 where ent: "enterGroup' s this obj rpt = Some s3" and t3: "sameTree ?sE s3"
    using enterGroup'_ok [of rpt s this obj A] rt ro cl inA by blast
  have grp3: "s_group (s3 obj) = Some this"
    using t3 by (simp add: sameTree_def)
  have objs3: "s_objects (s3 this) = s_objects (s this)"
    using t3 ne by (auto simp add: sameTree_def)
  have unfold: "enterGroup om act s this obj rpt =
     (case Option.bind (s_canvas (s3 this)) act of
        None \<Rightarrow> Some (Inr True, s3, True)
      | Some activeObject \<Rightarrow>
          Option.bind (if activeObject = obj then Some True
                       else isDescendantOf s3 obj activeObject) (\<lambda>b.
            Some (Inr True,
                  if b then s3(this := (s3 this)\<lparr>s_activeObjects := s_activeObjects (s3 this) @ [obj]\<rparr>)
                  else s3,
                  True)))"
    by (simp add: enterGroup_def can g ent)
  obtain s' where tl: "(case Option.bind (s_canvas (s3 this)) act of
        None \<Rightarrow> Some (Inr True, s3, True)
      | Some activeObject \<Rightarrow>
          Option.bind (if activeObject = obj then Some True
                       else isDescendantOf s3 obj activeObject) (\<lambda>b.
            Some (Inr True,
                  if b then s3(this := (s3 this)\<lparr>s_activeObjects := s_activeObjects (s3 this) @ [obj]\<rparr>)
                  else s3,
                  True))) = Some (Inr True :: groupError + bool, s', True)"
    and t4: "sameTree s3 s'"
    using enterGroup_tail [OF rt ent t3 ne nd, where act = act and fin = True] by blast
  have "s_group (s' obj) = Some this" "s_objects (s' this) = s_objects (s this)"
    using t4 grp3 objs3 by (simp_all add: sameTree_def)
  then show ?thesis using unfold tl by simp
qed

lemma sample_not_descendant:
  "isDescendantOf sampleScene 1 2 = Some False"
  "isDescendantOf sampleScene 1 3 = Some False"
  "isDescendantOf sampleScene 3 1 = Some True"
  by (simp_all add: isDescendantOf_def sampleScene_def plainObject_def ancestorLoop.simps)

lemma sample_world:
  "calcTransformMatrix sampleScene 1 = Some (Some (2, 0, 0, 2, 10, 20))"
  "calcTransformMatrix sampleScene 2 = Some (Some (1, 0, 0, 1, 8, 9))"
proof -
  show "calcTransformMatrix sampleScene 1 = Some (Some (2, 0, 0, 2, 10, 20))"
    using calcTransformMatrix_root [of sampleScene 1] by (simp add: sampleScene_def plainObject_def)
  have "calcTransformMatrix sampleScene 0 = Some (Some (1, 0, 0, 1, 5, 5))"
    using calcTransformMatrix_root [of sampleScene 0] by (simp add: sampleScene_def plainObject_def)
  then show "calcTransformMatrix sampleScene 2 = Some (Some (1, 0, 0, 1, 8, 9))"
    using calcTransformMatrix_child [of sampleScene 2 0 "Some (1, 0, 0, 1, 5, 5)"]
    by (simp add: sampleScene_def plainObject_def multiplyTransformMatrices_def multiplyMaybe_def)
qed

lemma sample_closed: "childClosed sampleScene {2}"
  by (simp add: childClosed_def sampleScene_def plainObject_def)

text \<open>
  Claim C2 (amended). Let object O have world transform W and group G world transform
  T, with T invertible, O not G and O not among the owners of G (so that O may enter
  G), and O's subtree finite. Then \<open>_enterGroup\<close> with \<open>removeParentTransform\<close>
  returns and stores \<open>inverse(T) \<times> W\<close> in O, whose world transform is still W; and
  \<open>_exitGroup\<close> without \<open>removeParentTransform\<close>, called next, returns and stores
  \<open>T \<times> (inverse(T) \<times> W) = W\<close> in O, which has no group any more: its world
  transform is W again, exactly.
\<close>

theorem reparenting_preserves_world:
  assumes W: "calcTransformMatrix s obj = Some (Some w)"
      and T: "calcTransformMatrix s this = Some (Some t)"
      and det: "determinant t \<noteq> 0"
      and ne: "obj \<noteq> this"
      and nd: "isDescendantOf s this obj = Some False"
      and cl: "childClosed s A" and inA: "obj \<in> A"
  shows "roundTrip s this obj = Some (Some w)
         \<and> (\<exists>s1 s2 ti. enterGroup' s this obj True = Some s1
               \<and> invertTransform t = Some ti
               \<and> s_group (s1 obj) = Some this
               \<and> s_ownMatrix (s1 obj) = Some (multiplyTransformMatrices ti w)
               \<and> calcTransformMatrix s1 obj = Some (Some w)
               \<and> exitGroup' s1 this obj False = Some s2
               \<and> s_group (s2 obj) = None
               \<and> s_ownMatrix (s2 obj) = Some w)"
proof -
  obtain ti where ti: "invertTransform t = Some ti"
    using multiply_invert_cancel [OF det] by blast
  let ?local = "Some (multiplyTransformMatrices ti w)"
  have lc: "multiplyMaybe (invertMaybe (Some t)) (Some w) = ?local"
    by (simp add: multiplyMaybe_def invertMaybe_def ti)
  have rt: "multiplyMaybe (Some t) ?local = Some w"
    using multiplyMaybe_invert_cancel [OF det, of w] lc by simp
  let ?sa = "applyTransformToObject s obj ?local"
  let ?sb = "?sa(obj := (?sa obj)\<lparr>s_group := Some this\<rparr>)"
  have v: "s_canvas (?sb this) = s_canvas (s this)"
    using ne by (simp add: applyTransformToObject_def)
  have "childClosed ?sb A"
    using cl by (simp add: childClosed_def applyTransformToObject_def)
  then obtain s1 where set1: "setCanvasAll ?sb [obj] (s_canvas (s this)) = Some s1"
    using setCanvasAll_terminates [of ?sb A "[obj]"] inA by auto
  have enter: "enterGroup' s this obj True = Some s1"
    using set1 v by (simp add: enterGroup'_def W T lc Let_def)
  have fr1: "sameButCanvas ?sb s1"
    using set1 by (rule setCanvasAll_frame)
  have g1: "s_group (s1 obj) = Some this" and m1: "s_ownMatrix (s1 obj) = ?local"
    using sameButCanvas_fields [OF fr1, of obj] by (simp_all add: applyTransformToObject_def)
  have other1: "s_group (s1 i) = s_group (s i) \<and> s_ownMatrix (s1 i) = s_ownMatrix (s i)"
    if "i \<noteq> obj" for i
    using that sameButCanvas_fields [OF fr1, of i] by (simp add: applyTransformToObject_def)
  have t1: "calcTransformMatrix s1 this = Some (Some t)"
    using calcTransformMatrix_frame [OF T other1 ne [symmetric] nd] by simp
  have w1: "calcTransformMatrix s1 obj = Some (Some w)"
    using calcTransformMatrix_child [OF g1 t1] m1 rt by simp
  let ?sc = "s1(obj := (s1 obj)\<lparr>s_group := None\<rparr>)"
  have t2: "calcTransformMatrix ?sc this = Some (Some t)"
  proof (rule calcTransformMatrix_frame [OF T _ ne [symmetric] nd])
    fix i
    assume "i \<noteq> obj"
    then show "s_group (?sc i) = s_group (s i) \<and> s_ownMatrix (?sc i) = s_ownMatrix (s i)"
      using other1 by simp
  qed
  have o2: "calcTransformMatrix ?sc obj = Some ?local"
    using calcTransformMatrix_root [of ?sc obj] m1 by simp
  let ?sd = "applyTransformToObject ?sc obj (Some w)"
  let ?s2 = "?sd(this := (?sd this)\<lparr>s_activeObjects := remove1 obj (s_activeObjects (?sd this))\<rparr>)"
  have exit: "exitGroup' s1 this obj False = Some ?s2"
    by (simp add: exitGroup'_def Let_def t2 o2 rt)
  have g2: "s_group (?s2 obj) = None" and m2: "s_ownMatrix (?s2 obj) = Some w"
    using ne by (simp_all add: applyTransformToObject_def)
  have w2: "calcTransformMatrix ?s2 obj = Some (Some w)"
    using calcTransformMatrix_root [of ?s2 obj] g2 m2 by simp
  have "roundTrip s this obj = Some (Some w)"
    by (simp add: roundTrip_def enter exit w2)
  then show ?thesis
    using enter ti g1 m1 w1 exit g2 m2 by blast
qed

theorem reparenting_preserves_world_witness:
  "roundTrip sampleScene 1 2 = Some (Some (1, 0, 0, 1, 8, 9))
   \<and> (\<exists>s1 s2. enterGroup' sampleScene 1 2 True = Some s1
           \<and> s_group (s1 2) = Some 1
           \<and> s_ownMatrix (s1 2) = Some (1/2, 0, 0, 1/2, -1, -11/2)
           \<and> calcTransformMatrix s1 2 = Some (Some (1, 0, 0, 1, 8, 9))
           \<and> exitGroup' s1 1 2 False = Some s2
           \<and> s_group (s2 2) = None
           \<and> s_ownMatrix (s2 2) = Some (1, 0, 0, 1, 8, 9))"
proof -
  have d: "determinant (2, 0, 0, 2, 10, 20) \<noteq> 0" by (simp add: determinant_def)
  have i: "invertTransform (2, 0, 0, 2, 10, 20) = Some (1/2, 0, 0, 1/2, -5, -10)"
    by (simp add: invertTransform_def transformPoint_def Let_def)
  have m: "multiplyTransformMatrices (1/2, 0, 0, 1/2, -5, -10) (1, 0, 0, 1, 8, 9)
             = (1/2, 0, 0, 1/2, -1, -11/2)"
    by (simp add: multiplyTransformMatrices_def)
  show ?thesis
    using reparenting_preserves_world [OF sample_world(2) sample_world(1) d _ sample_not_descendant(1)
            sample_closed]
    by (simp add: i m)
qed

text \<open>
  A group with \<open>scaleX\<close> 0 has no inverse transform: the object that enters it and
  leaves it is left with a transform that is not a matrix of finite numbers.
\<close>

theorem reparenting_singular_counterexample:
  "calcTransformMatrix sampleScene 2 = Some (Some (1, 0, 0, 1, 8, 9))
   \<and> canEnterGroup sampleScene 4 2 = Some (Inr True)
   \<and> roundTrip sampleScene 4 2 = Some None"
  by (simp add: roundTrip_def enterGroup'_def exitGroup'_def canEnterGroup_def isDescendantOf_def
        calcTransformMatrix.simps setCanvasAll.simps ancestorLoop.simps
        sampleScene_def plainObject_def applyTransformToObject_def
        multiplyMaybe_def invertMaybe_def invertTransform_def multiplyTransformMatrices_def Let_def)

text \<open>
  Claim C4 (amended). \<open>enterGroup\<close> throws when the object is the group itself or
  when the group is a descendant of the object, and throws when the object's
  \<open>group\<close> is this very group; in each case the scene, and so the group's
  \<open>_objects\<close> and the object's stored transform, is left as it was. When the object
  belongs to another group, and its chain of owners ends and its subtree is finite,
  \<open>enterGroup\<close> returns true, the other group has lost the object from its
  \<open>_objects\<close>, and the object's \<open>group\<close> is this group. When the object has no
  \<open>group\<close>, be it listed in this group's \<open>_objects\<close> or not, \<open>enterGroup\<close>
  returns true as well and the object's \<open>group\<close> is this group.
\<close>

theorem enterGroup_guards:
  "(obj = this \<longrightarrow> enterGroup om act s this obj rpt = Some (Inl AddGroupToItself, s, True))
   \<and> (isDescendantOf s this obj = Some True
        \<longrightarrow> enterGroup om act s this obj rpt = Some (Inl AddGroupToItself, s, True))
   \<and> (obj \<noteq> this \<and> isDescendantOf s this obj = Some False \<and> s_group (s obj) = Some this
        \<longrightarrow> enterGroup om act s this obj rpt = Some (Inl DuplicateObject, s, True))
   \<and> (obj \<noteq> this \<and> isDescendantOf s this obj = Some False \<and> s_group (s obj) = Some p
        \<and> p \<noteq> this \<and> calcTransformMatrix s obj = Some w
        \<and> childClosed s A \<and> obj \<in> A
        \<longrightarrow> (\<exists>s' fin. enterGroup om act s this obj rpt = Some (Inr True, s', fin)
               \<and> s_group (s' obj) = Some this
               \<and> s_objects (s' p) = remove1 obj (s_objects (s p))))
   \<and> (obj \<noteq> this \<and> isDescendantOf s this obj = Some False \<and> s_group (s obj) = None
        \<and> childClosed s A \<and> obj \<in> A
        \<longrightarrow> (\<exists>s'. enterGroup om act s this obj rpt = Some (Inr True, s', True)
               \<and> s_group (s' obj) = Some this
               \<and> s_objects (s' this) = s_objects (s this)))"
proof (intro conjI impI)
  assume "obj = this"
  then show "enterGroup om act s this obj rpt = Some (Inl AddGroupToItself, s, True)"
    by (simp add: enterGroup_def canEnterGroup_def)
next
  assume "isDescendantOf s this obj = Some True"
  then show "enterGroup om act s this obj rpt = Some (Inl AddGroupToItself, s, True)"
    by (simp add: enterGroup_def canEnterGroup_def)
next
  assume "obj \<noteq> this \<and> isDescendantOf s this obj = Some False \<and> s_group (s obj) = Some this"
  then show "enterGroup om act s this obj rpt = Some (Inl DuplicateObject, s, True)"
    by (simp add: enterGroup_def canEnterGroup_def)
next
  assume "obj \<noteq> this \<and> isDescendantOf s this obj = Some False \<and> s_group (s obj) = Some p
        \<and> p \<noteq> this \<and> calcTransformMatrix s obj = Some w
        \<and> childClosed s A \<and> obj \<in> A"
  then show "\<exists>s' fin. enterGroup om act s this obj rpt = Some (Inr True, s', fin)
               \<and> s_group (s' obj) = Some this
               \<and> s_objects (s' p) = remove1 obj (s_objects (s p))"
    using enterGroup_moves [of obj this s p w A om act rpt] by blast
next
  assume "obj \<noteq> this \<and> isDescendantOf s this obj = Some False \<and> s_group (s obj) = None
        \<and> childClosed s A \<and> obj \<in> A"
  then show "\<exists>s'. enterGroup om act s this obj rpt = Some (Inr True, s', True)
               \<and> s_group (s' obj) = Some this
               \<and> s_objects (s' this) = s_objects (s this)"
    using enterGroup_free [of obj this s A om act rpt] by blast
qed

theorem enterGroup_guards_witness:
  "enterGroup centeredMethods (\<lambda>c. None) layoutScene 1 1 True
      = Some (Inl AddGroupToItself, layoutScene, True)
   \<and> enterGroup centeredMethods (\<lambda>c. None) layoutScene 2 0 True
      = Some (Inl AddGroupToItself, layoutScene, True)
   \<and> enterGroup centeredMethods (\<lambda>c. None) layoutScene 0 2 True
      = Some (Inl DuplicateObject, layoutScene, True)
   \<and> (\<exists>s' fin. enterGroup centeredMethods (\<lambda>c. None) layoutScene 1 2 True = Some (Inr True, s', fin)
          \<and> s_group (s' 2) = Some 1 \<and> s_objects (s' 0) = [5])
   \<and> (\<exists>s'. enterGroup centeredMethods (\<lambda>c. None) constructionScene 0 2 True = Some (Inr True, s', True)
          \<and> s_group (s' 2) = Some 0 \<and> s_objects (s' 0) = [2])"
proof -
  have g2: "s_group (layoutScene 2) = Some 0" and o0: "s_objects (layoutScene 0) = [2, 5]"
    and c2: "s_group (constructionScene 2) = None" and co0: "s_objects (constructionScene 0) = [2]"
    by (simp_all add: layoutScene_def constructionScene_def layoutObject_def)
  have d: "isDescendantOf layoutScene 2 0 = Some True"
          "isDescendantOf layoutScene 0 2 = Some False"
          "isDescendantOf layoutScene 1 2 = Some False"
          "isDescendantOf constructionScene 0 2 = Some False"
    by (simp_all add: isDescendantOf_def layoutScene_def constructionScene_def layoutObject_def
          ancestorLoop.simps)
  have "calcTransformMatrix layoutScene 0 = Some (Some (1, 0, 0, 1, 0, 0))"
    using calcTransformMatrix_root [of layoutScene 0]
    by (simp add: layoutScene_def layoutObject_def objectProps_def)
  then have w: "calcTransformMatrix layoutScene 2 = Some (Some (1, 0, 0, 1, 25, -25))"
    using calcTransformMatrix_child [of layoutScene 2 0 "Some (1, 0, 0, 1, 0, 0)"]
    by (simp add: layoutScene_def layoutObject_def objectProps_def multiplyTransformMatrices_def
          multiplyMaybe_def)
  have cl: "childClosed layoutScene {2}" "childClosed constructionScene {2}"
    by (simp_all add: childClosed_def layoutScene_def constructionScene_def layoutObject_def)
  show ?thesis
    using enterGroup_guards [where obj = 1 and this = 1 and om = centeredMethods and act = "\<lambda>c. None"
            and s = layoutScene and rpt = True]
          enterGroup_guards [where obj = 0 and this = 2 and om = centeredMethods and act = "\<lambda>c. None"
            and s = layoutScene and rpt = True]
          enterGroup_guards [where obj = 2 and this = 0 and om = centeredMethods and act = "\<lambda>c. None"
            and s = layoutScene and rpt = True]
          enterGroup_guards [where obj = 2 and this = 1 and om = centeredMethods and act = "\<lambda>c. None"
            and s = layoutScene and rpt = True and p = 0 and w = "Some (1, 0, 0, 1, 25, -25)" and A = "{2}"]
          enterGroup_guards [where obj = 2 and this = 0 and om = centeredMethods and act = "\<lambda>c. None"
            and s = constructionScene and rpt = True and A = "{2}"]
          d w cl g2 o0 c2 co0
    by simp
qed

text \<open>
  The duplicate guard reads the back-reference, not the list of children: in the
  state in which the constructor calls \<open>enterGroup\<close>, the object is listed in the
  group's \<open>_objects\<close>, and the call does not throw but returns true.
\<close>

theorem enterGroup_listed_member_counterexample:
  "2 \<in> set (s_objects (constructionScene 0))
   \<and> map_option fst (enterGroup centeredMethods (\<lambda>c. None) constructionScene 0 2 False)
       = Some (Inr True)"
  by (simp add: enterGroup_def enterGroup'_def canEnterGroup_def isDescendantOf_def
        ancestorLoop.simps setCanvasAll.simps constructionScene_def layoutObject_def Let_def)

text \<open>
  The pass that \<open>remove\<close> runs on the old owner is the layout pass: in the scene
  with layouts, once object 2 has left group 0, the group is 10 by 40, the size of
  object 5, is centred where object 5 was, and object 5 is at the origin of the
  group's plane.
\<close>

lemma remove_lays_out_owner:
  "map_option (\<lambda>(s', fin). (s_objects (s' 0), s_group (s' 2), fin,
        width (s_self (s' 0)), height (s_self (s' 0)), left (s_self (s' 0)), top' (s_self (s' 0)),
        s_ownMatrix (s' 0), left (s_self (s' 5)), top' (s_self (s' 5)), s_ownMatrix (s' 5)))
     (group_remove centeredMethods layoutScene 0 2)
   = Some ([5], None, True, 10, 40, -35, 10, Some (1, 0, 0, 1, -35, 10),
           0, 0, Some (1, 0, 0, 1, 0, 0))"
  by (simp add: group_remove_def exitGroup_def exitGroup'_def onAfterObjectsChange_def
        applyLayoutStrategyAt.simps calcTransformMatrix.simps setCanvasAll.simps ancestorView.simps
        groupView_def objectView_def writeBack_def moveObject_def translateStored_def
        applyLayoutStrategy_def getLayoutStrategyResult_def prepareBoundingBox_def applyResult_def
        bubbleLayout_def setInitialTransform_def bboxResult_def makeBBox_def midPointFrom_def
        layoutScene_def layoutObject_def objectProps_def centeredMethods_def
        applyTransformToObject_def multiplyMaybe_def multiplyTransformMatrices_def
        invertTransform_def transformPoint_def orZero_def
        accumulate_def getRelativeCenterPoint_def rotateSizeVector_def
        scalarDivide_def p_add_def p_subtract_def Let_def)

end
